theory Spec2Isabelle
  imports Main
begin

section \<open>Strings\<close>

text \<open>
  Python strings are modelled as lists of 8-bit characters, read as the code points below
  256 (Latin-1); \<open>length\<close> counts code points as Python's \<open>len\<close> does. Code points above
  255 are outside the model.
\<close>

definition code :: "char \<Rightarrow> nat" where
  "code c = of_char c"

definition between :: "nat \<Rightarrow> nat \<Rightarrow> char \<Rightarrow> bool" where
  "between lo hi c = (lo \<le> code c \<and> code c \<le> hi)"

definition is_lower_az :: "char \<Rightarrow> bool" where
  \<comment> \<open>the class \<open>[a-z]\<close>\<close>
  "is_lower_az c = between 97 122 c"

definition is_digit09 :: "char \<Rightarrow> bool" where
  \<comment> \<open>the class \<open>[0-9]\<close>; also \<open>\<bsol>d\<close> on code points below 256\<close>
  "is_digit09 c = between 48 57 c"

definition is_name_char :: "char \<Rightarrow> bool" where
  \<comment> \<open>the class \<open>[a-z0-9-]\<close>\<close>
  "is_name_char c = (is_lower_az c \<or> is_digit09 c \<or> c = CHR ''-'')"

definition py_isalpha :: "char \<Rightarrow> bool" where
  \<comment> \<open>\<open>str.isalpha\<close> on one code point below 256: the ASCII letters and the Latin-1 letters\<close>
  "py_isalpha c =
     (between 65 90 c \<or> between 97 122 c \<or> code c = 170 \<or> code c = 181 \<or> code c = 186
      \<or> between 192 214 c \<or> between 216 246 c \<or> between 248 255 c)"

definition py_isalnum :: "char \<Rightarrow> bool" where
  \<comment> \<open>\<open>str.isalnum\<close>: letters, decimal digits, and the Latin-1 superscripts and fractions\<close>
  "py_isalnum c =
     (py_isalpha c \<or> between 48 57 c \<or> code c = 178 \<or> code c = 179 \<or> code c = 185
      \<or> between 188 190 c)"

definition lower_char :: "char \<Rightarrow> char" where
  \<comment> \<open>\<open>str.lower\<close> on one code point below 256\<close>
  "lower_char c =
     (if between 65 90 c \<or> (between 192 222 c \<and> code c \<noteq> 215)
      then char_of (code c + 32) else c)"

definition py_lower :: "string \<Rightarrow> string" where
  "py_lower s = map lower_char s"

definition sub_invalid :: "string \<Rightarrow> string" where
  \<comment> \<open>\<open>re.sub(r"[^a-z0-9-]", "-", s)\<close>\<close>
  "sub_invalid s = map (\<lambda>c. if is_name_char c then c else CHR ''-'') s"

fun collapse_hyphens :: "string \<Rightarrow> string" where
  \<comment> \<open>\<open>re.sub(r"-+", "-", s)\<close>: every maximal run of hyphens becomes one hyphen; a hyphen
    that another hyphen follows is dropped\<close>
  "collapse_hyphens [] = []"
| "collapse_hyphens [c] = [c]"
| "collapse_hyphens (c # d # s) =
     (if c = CHR ''-'' \<and> d = CHR ''-'' then collapse_hyphens (d # s)
      else c # collapse_hyphens (d # s))"

definition strip_hyphens :: "string \<Rightarrow> string" where
  \<comment> \<open>\<open>s.strip("-")\<close>\<close>
  "strip_hyphens s =
     rev (dropWhile (\<lambda>d. d = CHR ''-'') (rev (dropWhile (\<lambda>d. d = CHR ''-'') s)))"

subsection \<open>Random identifiers\<close>

definition hex_digit :: "nat \<Rightarrow> char" where
  \<comment> \<open>the lower-case hexadecimal digit of \<open>n mod 16\<close>\<close>
  "hex_digit n = ''0123456789abcdef'' ! (n mod 16)"

definition uuid_hex :: "nat \<Rightarrow> string" where
  \<comment> \<open>\<open>uuid.UUID.hex\<close>: the 128-bit integer of the identifier as 32 lower-case hexadecimal
    digits, most significant first\<close>
  "uuid_hex u = map (\<lambda>i. hex_digit ((u mod 2 ^ 128) div 16 ^ (31 - i))) [0..<32]"

section \<open>The job-name sanitizer\<close>

text \<open>
  \<open>_sanitize_job_name\<close> of \<open>pipeline_utils.py\<close>. The integer of the \<open>uuid.uuid4()\<close> that
  the empty-name branch draws is the first argument.
\<close>

definition sanitize_job_name :: "nat \<Rightarrow> string \<Rightarrow> string" where
  "sanitize_job_name u name =
     (let sanitized = py_lower name;
          sanitized = sub_invalid sanitized;
          sanitized = collapse_hyphens sanitized;
          sanitized = strip_hyphens sanitized
      in if sanitized = [] then ''job-'' @ take 8 (uuid_hex u)
         else
           let sanitized = (if \<not> py_isalpha (hd sanitized) then ''job-'' @ sanitized
                            else sanitized);
               sanitized = (if \<not> py_isalnum (last sanitized) then butlast sanitized
                            else sanitized)
           in take 63 sanitized)"

definition is_alnum_lc :: "char \<Rightarrow> bool" where
  \<comment> \<open>the class \<open>[a-z0-9]\<close>\<close>
  "is_alnum_lc c = (is_lower_az c \<or> is_digit09 c)"

definition is_hex_char :: "char \<Rightarrow> bool" where
  \<comment> \<open>the class \<open>[0-9a-f]\<close>\<close>
  "is_hex_char c = (is_digit09 c \<or> between 97 102 c)"

definition job_name_regex :: "string \<Rightarrow> bool" where
  \<comment> \<open>the strings of the language \<open>^[a-z][a-z0-9-]*[a-z0-9]$\<close>: at least two characters\<close>
  "job_name_regex s =
     (2 \<le> length s \<and> is_lower_az (hd s) \<and> list_all is_name_char s \<and> is_alnum_lc (last s))"

definition is_fallback_name :: "string \<Rightarrow> bool" where
  \<comment> \<open>\<open>job-\<close> followed by eight hexadecimal digits\<close>
  "is_fallback_name s =
     (length s = 12 \<and> take 4 s = ''job-'' \<and> list_all is_hex_char (drop 4 s))"

text \<open>
  Two names for intermediate values of \<open>sanitize_job_name\<close>, used to state lemmas about it:
  the name after the four cleaning steps, and the name after the prefix step.
\<close>

definition cleaned :: "string \<Rightarrow> string" where
  "cleaned name = strip_hyphens (collapse_hyphens (sub_invalid (py_lower name)))"

definition prefixed :: "string \<Rightarrow> string" where
  "prefixed c = (if \<not> py_isalpha (hd c) then ''job-'' @ c else c)"

text \<open>
  The names the sanitizer leaves unchanged: no two hyphens in a row, only characters of
  \<open>[a-z0-9-]\<close>, a lower-case letter first.
\<close>

fun no_double_hyphen :: "string \<Rightarrow> bool" where
  "no_double_hyphen [] = True"
| "no_double_hyphen [c] = True"
| "no_double_hyphen (c # d # s) = (\<not> (c = CHR ''-'' \<and> d = CHR ''-'') \<and> no_double_hyphen (d # s))"

definition clean_name :: "string \<Rightarrow> bool" where
  "clean_name y =
     (y \<noteq> [] \<and> list_all is_name_char y \<and> is_lower_az (hd y) \<and> no_double_hyphen y)"

section \<open>Values parsed from JSON, and the Python operations on them\<close>

text \<open>
  A value returned by \<open>json.loads\<close>. A JSON object is the list of the items of the parsed
  \<open>dict\<close>, in insertion order (the keys of a parsed \<open>dict\<close> are distinct; \<open>map_of\<close> reads
  the first item of a key). Numbers are Python's unbounded integers; floating-point numbers
  are outside the model.
\<close>

datatype json =
  JNull | JBool bool | JInt int | JStr string | JArr "json list" | JObj "(string \<times> json) list"

text \<open>
  The exceptions that the modelled code can meet. \<open>OtherError msg\<close> is an exception raised by
  the environment (the file system, the process launcher, a client library) whose \<open>str\<close> is
  \<open>msg\<close>.
\<close>

datatype exn =
  AttributeError | TypeError | JSONDecodeError
  | CalledProcessError int string
  | OtherError string

definition dict_get :: "json \<Rightarrow> string \<Rightarrow> json \<Rightarrow> exn + json" where
  \<comment> \<open>\<open>d.get(k, default)\<close>; only a \<open>dict\<close> has the method\<close>
  "dict_get d k dflt =
     (case d of
        JObj kvs \<Rightarrow> Inr (case map_of kvs k of Some v \<Rightarrow> v | None \<Rightarrow> dflt)
      | _ \<Rightarrow> Inl AttributeError)"

definition dict_keys :: "json \<Rightarrow> exn + string list" where
  \<comment> \<open>\<open>d.keys()\<close>\<close>
  "dict_keys d = (case d of JObj kvs \<Rightarrow> Inr (map fst kvs) | _ \<Rightarrow> Inl AttributeError)"

definition dict_items :: "json \<Rightarrow> exn + (string \<times> json) list" where
  \<comment> \<open>\<open>d.items()\<close>\<close>
  "dict_items d = (case d of JObj kvs \<Rightarrow> Inr kvs | _ \<Rightarrow> Inl AttributeError)"

definition int_of_bool :: "bool \<Rightarrow> int" where
  "int_of_bool b = (if b then 1 else 0)"

fun py_add :: "json \<Rightarrow> json \<Rightarrow> exn + json" where
  \<comment> \<open>\<open>a + b\<close>: lists and strings concatenate, integers and booleans add\<close>
  "py_add (JArr xs) (JArr ys) = Inr (JArr (xs @ ys))"
| "py_add (JStr s) (JStr t) = Inr (JStr (s @ t))"
| "py_add (JInt a) (JInt b) = Inr (JInt (a + b))"
| "py_add (JInt a) (JBool b) = Inr (JInt (a + int_of_bool b))"
| "py_add (JBool a) (JInt b) = Inr (JInt (int_of_bool a + b))"
| "py_add (JBool a) (JBool b) = Inr (JInt (int_of_bool a + int_of_bool b))"
| "py_add _ _ = Inl TypeError"

definition hashable :: "json \<Rightarrow> bool" where
  "hashable v = (case v of JArr _ \<Rightarrow> False | JObj _ \<Rightarrow> False | _ \<Rightarrow> True)"

definition py_set :: "json \<Rightarrow> exn + json list" where
  \<comment> \<open>the elements of \<open>set(v)\<close>: the elements of a list (all of them hashable), the
    one-character strings of a string, the keys of a \<open>dict\<close>\<close>
  "py_set v =
     (case v of
        JArr xs \<Rightarrow> if list_all hashable xs then Inr xs else Inl TypeError
      | JStr s \<Rightarrow> Inr (map (\<lambda>c. JStr [c]) s)
      | JObj kvs \<Rightarrow> Inr (map (\<lambda>kv. JStr (fst kv)) kvs)
      | _ \<Rightarrow> Inl TypeError)"

definition hash_key :: "json \<Rightarrow> json" where
  \<comment> \<open>as elements of a set Python identifies \<open>True\<close> with \<open>1\<close> and \<open>False\<close> with \<open>0\<close>\<close>
  "hash_key v = (case v of JBool b \<Rightarrow> JInt (int_of_bool b) | _ \<Rightarrow> v)"

definition truthy :: "json \<Rightarrow> bool" where
  \<comment> \<open>the truth value of a parsed value\<close>
  "truthy v =
     (case v of
        JNull \<Rightarrow> False | JBool b \<Rightarrow> b | JInt i \<Rightarrow> i \<noteq> 0 | JStr s \<Rightarrow> s \<noteq> []
      | JArr xs \<Rightarrow> xs \<noteq> [] | JObj kvs \<Rightarrow> kvs \<noteq> [])"

section \<open>Result dictionaries\<close>

text \<open>
  The functions return a \<open>dict\<close> literal; the model returns the list of its items. A value
  is a string, \<open>None\<close>, or a formatted message. A message that interpolates a list, a set or
  an exception is kept as a constructor holding the interpolated data, since the text of
  \<open>list(set(...))\<close> depends on the hash order:
  \<^item> \<open>InvalidParams invalid all\<close>:
    \<open>f"Invalid param(s) passed: {invalid_params}. Valid params are: {all_defined_params}"\<close>;
  \<^item> \<open>MissingRequired missing\<close>: \<open>f"Missing required param(s): {missing_required}"\<close>;
  \<^item> \<open>ValidationUnexpected err\<close>:
    \<open>f"An unexpected error occurred during validation - {str(err)}"\<close>;
  \<^item> \<open>ValidationRunError err\<close>: \<open>f"Error while running validation - {str(err)}"\<close>;
  \<^item> \<open>ValidationFailure c\<close>:
    \<open>f"Job could not be submitted due to a parameter validation error: {comment}"\<close>;
  \<^item> \<open>SubmitUnexpected err\<close>: \<open>f"An unexpected error occurred: {str(err)}"\<close>.
\<close>

datatype pyval =
  Str string
  | PyNone
  | InvalidParams "string set" json
  | MissingRequired "json set"
  | ValidationUnexpected exn
  | ValidationRunError exn
  | ValidationFailure pyval
  | SubmitUnexpected exn

type_synonym pydict = "(string \<times> pyval) list"

section \<open>The parameter validators\<close>

text \<open>\<open>validate_input_params\<close> of \<open>dataflow_template_tools.py\<close>: the body of the \<open>try\<close>.\<close>

definition validate_input_params_body :: "json \<Rightarrow> json \<Rightarrow> exn + pydict" where
  "validate_input_params_body template_definition user_inputs =
     (case dict_get template_definition ''required'' (JArr []) of Inl err \<Rightarrow> Inl err
      | Inr required_params \<Rightarrow>
     (case dict_get template_definition ''optional'' (JArr []) of Inl err \<Rightarrow> Inl err
      | Inr optional_params \<Rightarrow>
     (case py_add required_params optional_params of Inl err \<Rightarrow> Inl err
      | Inr all_defined_params \<Rightarrow>
     (case dict_keys user_inputs of Inl err \<Rightarrow> Inl err
      | Inr user_param_keys \<Rightarrow>
     (case py_set all_defined_params of Inl err \<Rightarrow> Inl err
      | Inr all_set \<Rightarrow>
        let invalid_params = filter (\<lambda>k. JStr k \<notin> set all_set) user_param_keys
        in if invalid_params \<noteq> []
           then Inr [(''validation_result'', Str ''failed''),
                     (''comment'', InvalidParams (set invalid_params) all_defined_params)]
           else
     (case py_set required_params of Inl err \<Rightarrow> Inl err
      | Inr required_set \<Rightarrow>
        let missing_required = filter (\<lambda>r. r \<notin> set (map JStr user_param_keys)) required_set
        in if missing_required \<noteq> []
           then Inr [(''validation_result'', Str ''failed''),
                     (''comment'', MissingRequired (hash_key ` set missing_required))]
           else Inr [(''validation_result'', Str ''success''),
                     (''comment'', Str ''Validation Passed'')]))))))"

definition validate_input_params :: "json \<Rightarrow> json \<Rightarrow> pydict" where
  "validate_input_params template_definition user_inputs =
     (case validate_input_params_body template_definition user_inputs of
        Inr result \<Rightarrow> result
      | Inl err \<Rightarrow> [(''validation_result'', Str ''failed''),
                    (''comment'', ValidationUnexpected err)])"

text \<open>\<open>validate_input_params\<close> of \<open>dataproc_template_agent/utils.py\<close>.\<close>

definition dataproc_validate_input_params_body :: "json \<Rightarrow> json \<Rightarrow> exn + pydict" where
  "dataproc_validate_input_params_body template_params input_params =
     (case dict_get template_params ''required'' (JArr []) of Inl err \<Rightarrow> Inl err
      | Inr required_template_params \<Rightarrow>
     (case dict_get template_params ''optional'' (JArr []) of Inl err \<Rightarrow> Inl err
      | Inr optional_template_params \<Rightarrow>
     (case py_add required_template_params optional_template_params of Inl err \<Rightarrow> Inl err
      | Inr all_params \<Rightarrow>
     (case dict_keys input_params of Inl err \<Rightarrow> Inl err
      | Inr input_params_name \<Rightarrow>
     (case py_set all_params of Inl err \<Rightarrow> Inl err
      | Inr all_set \<Rightarrow>
        let invalid_input_params = filter (\<lambda>k. JStr k \<notin> set all_set) input_params_name
        in if invalid_input_params \<noteq> []
           then Inr [(''validation_result'', Str ''failed''),
                     (''comment'', Str ''Invalid param passed'')]
           else
     (case py_set required_template_params of Inl err \<Rightarrow> Inl err
      | Inr required_set \<Rightarrow>
        let all_required_params = (set required_set \<subseteq> set (map JStr input_params_name))
        in if \<not> all_required_params
           then Inr [(''validation_result'', Str ''failed''),
                     (''comment'', Str ''Missing required params'')]
           else Inr [(''validation_result'', Str ''success''),
                     (''comment'', Str ''Validation Passed'')]))))))"

definition dataproc_validate_input_params :: "json \<Rightarrow> json \<Rightarrow> pydict" where
  "dataproc_validate_input_params template_params input_params =
     (case dataproc_validate_input_params_body template_params input_params of
        Inr result \<Rightarrow> result
      | Inl err \<Rightarrow> [(''validation_result'', Str ''failed''),
                    (''comment'', ValidationRunError err)])"

section \<open>Submitting a template job\<close>

text \<open>
  What \<open>submit_dataflow_template\<close> takes from outside the program:
  \<^item> \<open>json_loads s\<close>: the value \<open>json.loads(s)\<close> returns, \<open>None\<close> when it raises;
  \<^item> \<open>py_str v\<close>: the text \<open>str(v)\<close> of a value that is not a string (a string is its own
    text);
  \<^item> \<open>run_shell cmd\<close>: what \<open>subprocess.run(cmd, capture_output=True, text=True, shell=True)\<close>
    does: it raises, or the command completes with a return code and a standard output.
\<close>

record environment =
  json_loads :: "string \<Rightarrow> json option"
  py_str :: "json \<Rightarrow> string"
  run_shell :: "string \<Rightarrow> exn + (int \<times> string)"

definition render :: "environment \<Rightarrow> json \<Rightarrow> string" where
  \<comment> \<open>\<open>{v}\<close> inside an f-string\<close>
  "render env v = (case v of JStr s \<Rightarrow> s | _ \<Rightarrow> py_str env v)"

fun py_join :: "string \<Rightarrow> string list \<Rightarrow> string" where
  \<comment> \<open>\<open>sep.join(xs)\<close>\<close>
  "py_join sep [] = []"
| "py_join sep [x] = x"
| "py_join sep (x # y # xs) = x @ sep @ py_join sep (y # xs)"

fun is_substring :: "string \<Rightarrow> string \<Rightarrow> bool" where
  \<comment> \<open>\<open>needle in s\<close> for two strings\<close>
  "is_substring needle [] = (needle = [])"
| "is_substring needle (c # s) =
     (take (length needle) (c # s) = needle \<or> is_substring needle s)"

definition py_in :: "string \<Rightarrow> json \<Rightarrow> exn + bool" where
  \<comment> \<open>\<open>needle in v\<close> for a string \<open>needle\<close>: substring of a string, element of a list, key of a
    \<open>dict\<close>; other values are not iterable\<close>
  "py_in needle v =
     (case v of
        JStr s \<Rightarrow> Inr (is_substring needle s)
      | JArr xs \<Rightarrow> Inr (JStr needle \<in> set xs)
      | JObj kvs \<Rightarrow> Inr (needle \<in> set (map fst kvs))
      | _ \<Rightarrow> Inl TypeError)"

definition unwrap_template_definition :: "json \<Rightarrow> pydict + json" where
  \<comment> \<open>the handling of a template definition wrapped in a list, and the check that the
    result is a \<open>dict\<close>; \<open>Inl\<close> is the failed result returned at once\<close>
  "unwrap_template_definition template_definition_dict =
     (let unwrapped =
        (case template_definition_dict of
           JArr [] \<Rightarrow>
             Inl [(''status'', Str ''failed''),
                  (''comment'', Str ''Job could not be submitted because the template definition was an empty list.'')]
         | JArr (first # _) \<Rightarrow> Inr first
         | _ \<Rightarrow> Inr template_definition_dict)
      in case unwrapped of
           Inl failed \<Rightarrow> Inl failed
         | Inr (JObj kvs) \<Rightarrow> Inr (JObj kvs)
         | Inr _ \<Rightarrow>
             Inl [(''status'', Str ''failed''),
                  (''comment'', Str ''Job could not be submitted because the processed template definition is not a valid dictionary (JSON object).'')])"

definition get_or_none :: "json \<Rightarrow> string \<Rightarrow> json" where
  \<comment> \<open>\<open>d.get(k)\<close> on a value known to be a \<open>dict\<close>\<close>
  "get_or_none d k = (case dict_get d k JNull of Inr v \<Rightarrow> v | Inl _ \<Rightarrow> JNull)"

definition resolve_template_gcs_path :: "string \<Rightarrow> json \<Rightarrow> json" where
  "resolve_template_gcs_path custom_gcs_path template_definition_dict =
     (if custom_gcs_path \<noteq> [] then JStr custom_gcs_path
      else get_or_none template_definition_dict ''template_gcs_path'')"

definition encode_parameters :: "environment \<Rightarrow> (string \<times> json) list \<Rightarrow> string" where
  \<comment> \<open>\<open>parameters_str\<close>: the items joined by the delimiter \<open>~\<close>, after the prefix \<open>^~^\<close>\<close>
  "encode_parameters env items =
     (let delemeter = ''~'';
          parameters_str = py_join delemeter (map (\<lambda>(key, val). key @ ''='' @ render env val) items)
      in ''^'' @ delemeter @ ''^'' @ parameters_str)"

definition flex_command :: "string \<Rightarrow> string \<Rightarrow> string \<Rightarrow> string \<Rightarrow> string \<Rightarrow> string" where
  "flex_command job_name gcp_project region template_gcs_path parameters_str =
     ''gcloud dataflow flex-template run '' @ job_name @ '' --project='' @ gcp_project
     @ '' --region='' @ region @ '' --template-file-gcs-location='' @ template_gcs_path
     @ '' --parameters \"'' @ parameters_str @ ''\" --additional-user-labels=''
     @ ''source=plumber''"

definition classic_command ::
  "string \<Rightarrow> string \<Rightarrow> string \<Rightarrow> string \<Rightarrow> string \<Rightarrow> string \<Rightarrow> string" where
  "classic_command job_name gcp_project region template_gcs_path parameters_str
       gcs_staging_location =
     ''gcloud dataflow jobs run '' @ job_name @ '' --project='' @ gcp_project
     @ '' --region='' @ region @ '' --gcs-location='' @ template_gcs_path
     @ '' --parameters \"'' @ parameters_str @ ''\" --staging-location='' @ gcs_staging_location
     @ '' --additional-user-labels='' @ ''source=plumber''"

definition check_parameters :: "string \<Rightarrow> json \<Rightarrow> json \<Rightarrow> pydict option" where
  \<comment> \<open>the validation step, skipped when a custom path is given; \<open>Some\<close> is the failed result
    returned at once\<close>
  "check_parameters custom_gcs_path template_definition_dict user_input_dict =
     (if custom_gcs_path = [] then
        (let params_to_validate =
               (case dict_get template_definition_dict ''params'' (JObj []) of
                  Inr v \<Rightarrow> v | Inl _ \<Rightarrow> JObj [])
         in if \<not> truthy params_to_validate
            then Some [(''status'', Str ''failed''),
                       (''comment'', Str ''Job could not be submitted because the template definition is missing the \"params\" key.'')]
            else
              let param_validation_result =
                    validate_input_params params_to_validate user_input_dict
              in if map_of param_validation_result ''validation_result'' \<noteq> Some (Str ''success'')
                 then Some [(''status'', Str ''failed''),
                            (''comment'',
                             ValidationFailure
                               (case map_of param_validation_result ''comment'' of
                                  Some c \<Rightarrow> c | None \<Rightarrow> Str ''Unknown reason''))]
                 else None)
      else None)"

text \<open>
  The part of the \<open>try\<close> body after the template definition has been unwrapped. The result
  is the value returned or the exception raised, with the list of the commands run.
\<close>

definition submit_unwrapped ::
  "environment \<Rightarrow> string \<Rightarrow> json \<Rightarrow> json \<Rightarrow> string \<Rightarrow> string \<Rightarrow> string \<Rightarrow> string
     \<Rightarrow> (exn + pydict) \<times> string list" where
  "submit_unwrapped env job_name user_input_dict template_definition_dict gcp_project region
       gcs_staging_location custom_gcs_path =
     (let template_gcs_path = resolve_template_gcs_path custom_gcs_path template_definition_dict
      in if \<not> truthy template_gcs_path
         then (Inr [(''status'', Str ''failed''),
                    (''comment'', Str ''Job could not be submitted because the \"template_gcs_path\" key was not found.'')], [])
         else
     (case check_parameters custom_gcs_path template_definition_dict user_input_dict of
        Some failed \<Rightarrow> (Inr failed, [])
      | None \<Rightarrow>
     (case dict_items user_input_dict of Inl err \<Rightarrow> (Inl err, [])
      | Inr items \<Rightarrow>
        let parameters_str = encode_parameters env items
        in
     (case py_in ''/flex/'' template_gcs_path of Inl err \<Rightarrow> (Inl err, [])
      | Inr in_path \<Rightarrow>
        let is_flex = (in_path \<or> get_or_none template_definition_dict ''type'' = JStr ''FLEX'');
            run_cmd =
              (if is_flex
               then flex_command job_name gcp_project region (render env template_gcs_path)
                      parameters_str
               else classic_command job_name gcp_project region (render env template_gcs_path)
                      parameters_str gcs_staging_location)
        in
     (case run_shell env run_cmd of Inl err \<Rightarrow> (Inl err, [run_cmd])
      | Inr (returncode, out) \<Rightarrow>
          if returncode \<noteq> 0 then (Inl (CalledProcessError returncode out), [run_cmd])
          else (Inr [(''status'', Str ''success''),
                     (''stdout'', Str out),
                     (''comment'', Str ''Job Submitted Successfully'')], [run_cmd]))))))"

definition except_exception :: "(exn + pydict) \<times> string list \<Rightarrow> pydict \<times> string list" where
  \<comment> \<open>the clause \<open>except Exception as err\<close> of \<open>submit_dataflow_template\<close>\<close>
  "except_exception r =
     (case fst r of
        Inr result \<Rightarrow> (result, snd r)
      | Inl err \<Rightarrow> ([(''status'', Str ''failed''), (''comment'', SubmitUnexpected err)], snd r))"

text \<open>
  \<open>submit_dataflow_template\<close> of \<open>dataflow_template_tools.py\<close>: the returned \<open>dict\<close> and the
  commands that were run.
\<close>

definition submit_dataflow_template ::
  "environment \<Rightarrow> string \<Rightarrow> string \<Rightarrow> string \<Rightarrow> string \<Rightarrow> string \<Rightarrow> string \<Rightarrow> string
     \<Rightarrow> pydict \<times> string list" where
  "submit_dataflow_template env job_name input_params template_params gcp_project region
       gcs_staging_location custom_gcs_path =
     except_exception
       (case json_loads env input_params of None \<Rightarrow> (Inl JSONDecodeError, [])
        | Some user_input_dict \<Rightarrow>
       (case json_loads env template_params of None \<Rightarrow> (Inl JSONDecodeError, [])
        | Some template_definition_dict \<Rightarrow>
       (case unwrap_template_definition template_definition_dict of
          Inl failed \<Rightarrow> (Inr failed, [])
        | Inr template_definition_dict \<Rightarrow>
            submit_unwrapped env job_name user_input_dict template_definition_dict gcp_project
              region gcs_staging_location custom_gcs_path)))"

fun split_on :: "char \<Rightarrow> string \<Rightarrow> string list" where
  \<comment> \<open>\<open>s.split(d)\<close> for a separator \<open>d\<close> of one character: the pieces of \<open>s\<close> between the
    occurrences of \<open>d\<close>\<close>
  "split_on d [] = [[]]"
| "split_on d (c # s) =
     (if c = d then [] # split_on d s
      else (case split_on d s of [] \<Rightarrow> [[c]] | w # ws \<Rightarrow> (c # w) # ws))"

text \<open>Names used to state the properties of the unwrapping step.\<close>

definition is_object :: "json \<Rightarrow> bool" where
  "is_object v = (case v of JObj _ \<Rightarrow> True | _ \<Rightarrow> False)"

definition first_or_self :: "json \<Rightarrow> json" where
  \<comment> \<open>the unwrapped template definition: the first element of a non-empty list, or the value\<close>
  "first_or_self t = (case t of JArr (first # _) \<Rightarrow> first | _ \<Rightarrow> t)"

subsection \<open>A concrete environment\<close>

text \<open>
  A template definition with a flex path, and an environment in which the strings \<open>T\<close>,
  \<open>L\<close>, \<open>N\<close>, \<open>F\<close>, \<open>E\<close>, \<open>C\<close> parse to that definition, to a list that starts with it, to
  a list nested in a list, to the first element of that nested list, to the empty list and to
  a classic definition; \<open>P\<close>, \<open>P1\<close> and \<open>P2\<close> parse to parameter mappings; every command
  exits with status 0 and prints \<open>started\<close>.
\<close>

definition example_template :: json where
  "example_template =
     JObj [(''template_gcs_path'', JStr ''gs://templates/flex/Job''),
           (''type'', JStr ''FLEX''),
           (''params'', JObj [(''required'', JArr [JStr ''a'']), (''optional'', JArr [JStr ''b''])])]"

definition classic_template :: json where
  "classic_template =
     JObj [(''template_gcs_path'', JStr ''gs://templates/latest/Job''),
           (''type'', JStr ''CLASSIC''),
           (''params'', JObj [(''required'', JArr [JStr ''a'']), (''optional'', JArr [JStr ''b''])])]"

definition example_loads :: "string \<Rightarrow> json option" where
  "example_loads s =
     (if s = ''T'' then Some example_template
      else if s = ''L'' then Some (JArr [example_template, JNull])
      else if s = ''N'' then Some (JArr [JArr [example_template]])
      else if s = ''F'' then Some (JArr [example_template])
      else if s = ''E'' then Some (JArr [])
      else if s = ''C'' then Some classic_template
      else if s = ''P'' then Some (JObj [(''a'', JStr ''1,2'')])
      else if s = ''P1'' then Some (JObj [(''a'', JStr ''x~b=y'')])
      else if s = ''P2'' then Some (JObj [(''a'', JStr ''x''), (''b'', JStr ''y'')])
      else None)"

definition example_env :: environment where
  "example_env =
     \<lparr>json_loads = example_loads, py_str = (\<lambda>v. []),
      run_shell = (\<lambda>cmd. Inr (0, ''started''))\<rparr>"

section \<open>The custom job builder\<close>

subsection \<open>Searching the output\<close>

text \<open>
  The identifier pattern \<open>\<bsol>d{4}-\<bsol>d{2}-\<bsol>d{2}_\<bsol>d{2}_\<bsol>d{2}_\<bsol>d{2}-\<bsol>d+\<close>: a fixed part of digit groups
  and separators, then one or more digits. \<open>re.search\<close> returns the leftmost match, and \<open>\<bsol>d+\<close>
  takes all the digits that follow.
\<close>

datatype pat = Digits nat | Sep char

fun match_fixed :: "pat list \<Rightarrow> string \<Rightarrow> string option" where
  \<comment> \<open>the text left after the fixed part, when the string starts with it\<close>
  "match_fixed [] s = Some s"
| "match_fixed (Digits n # ps) s =
     (if n \<le> length s \<and> list_all is_digit09 (take n s) then match_fixed ps (drop n s) else None)"
| "match_fixed (Sep c # ps) s =
     (case s of [] \<Rightarrow> None | d # s' \<Rightarrow> if d = c then match_fixed ps s' else None)"

definition job_id_fixed :: "pat list" where
  "job_id_fixed =
     [Digits 4, Sep CHR ''-'', Digits 2, Sep CHR ''-'', Digits 2, Sep CHR ''_'', Digits 2,
      Sep CHR ''_'', Digits 2, Sep CHR ''_'', Digits 2, Sep CHR ''-'']"

definition job_id_at :: "string \<Rightarrow> string option" where
  \<comment> \<open>the match of the identifier pattern at the start of the string\<close>
  "job_id_at s =
     (case match_fixed job_id_fixed s of
        None \<Rightarrow> None
      | Some rest \<Rightarrow>
          let ds = takeWhile is_digit09 rest
          in if ds = [] then None else Some (take (length s - length rest) s @ ds))"

fun find_job_id :: "string \<Rightarrow> string option" where
  \<comment> \<open>\<open>re.search\<close> of the identifier pattern: group 1 of the leftmost match\<close>
  "find_job_id [] = job_id_at []"
| "find_job_id (c # s) =
     (case job_id_at (c # s) of Some m \<Rightarrow> Some m | None \<Rightarrow> find_job_id s)"

definition quoted_at :: "string \<Rightarrow> string \<Rightarrow> string option" where
  \<comment> \<open>the match of \<open>label: '([^']*)'\<close> at the start of the string: group 1\<close>
  "quoted_at label s =
     (let pre = label @ '': '' @ [CHR 0x27]
      in if take (length pre) s = pre
         then let rest = drop (length pre) s;
                  body = takeWhile (\<lambda>c. c \<noteq> CHR 0x27) rest
              in if length body < length rest then Some body else None
         else None)"

fun find_quoted :: "string \<Rightarrow> string \<Rightarrow> string option" where
  \<comment> \<open>\<open>re.search(r"label: '([^']*)'", s)\<close>: group 1 of the leftmost match\<close>
  "find_quoted label [] = quoted_at label []"
| "find_quoted label (c # s) =
     (case quoted_at label (c # s) of Some m \<Rightarrow> Some m | None \<Rightarrow> find_quoted label s)"

subsection \<open>Paths and dictionaries\<close>

definition path_join :: "string \<Rightarrow> string \<Rightarrow> string" where
  \<comment> \<open>\<open>os.path.join(a, b)\<close> on a POSIX system\<close>
  "path_join a b =
     (if b \<noteq> [] \<and> hd b = CHR ''/'' then b
      else if a = [] \<or> last a = CHR ''/'' then a @ b
      else a @ ''/'' @ b)"

fun dict_set :: "(string \<times> string) list \<Rightarrow> string \<Rightarrow> string \<Rightarrow> (string \<times> string) list" where
  \<comment> \<open>\<open>d[k] = v\<close>: a key already present keeps its place\<close>
  "dict_set [] k v = [(k, v)]"
| "dict_set ((k', v') # kvs) k v =
     (if k' = k then (k, v) # kvs else (k', v') # dict_set kvs k v)"

function remove_gs :: "string \<Rightarrow> string" where
  \<comment> \<open>\<open>s.replace("gs://", "")\<close>\<close>
  "remove_gs [] = []"
| "remove_gs (c # s) =
     (if take 5 (c # s) = ''gs://'' then remove_gs (drop 4 s) else c # remove_gs s)"
  by pat_completeness auto
termination
  by (relation "measure length") auto

definition newline :: string where
  "newline = [CHR 0x0A]"

subsection \<open>The world outside\<close>

text \<open>
  The state the builder changes: the files (path to content) and the stored objects (bucket
  and path to content).
\<close>

record world =
  files :: "string \<rightharpoonup> string"
  blobs :: "string \<times> string \<rightharpoonup> string"

definition put_file :: "string \<Rightarrow> string \<Rightarrow> world \<Rightarrow> world" where
  "put_file path content w = files_update (\<lambda>f. f(path \<mapsto> content)) w"

definition remove_file :: "string \<Rightarrow> world \<Rightarrow> world" where
  \<comment> \<open>\<open>os.remove(path)\<close>\<close>
  "remove_file path w = files_update (\<lambda>f. f(path := None)) w"

definition put_blob :: "string \<times> string \<Rightarrow> string \<Rightarrow> world \<Rightarrow> world" where
  \<comment> \<open>\<open>blob.upload_from_string(content)\<close>\<close>
  "put_blob key content w = blobs_update (\<lambda>b. b(key \<mapsto> content)) w"

text \<open>
  The outcome of \<open>with open(temp_filename, "w") as f: f.write(pipeline_code)\<close>: the file is
  written; or \<open>open\<close> raises and no file is made; or \<open>write\<close> raises and the file exists with
  some content.
\<close>

datatype write_result = Written | OpenFailed string | WriteFailed string string

text \<open>
  A batch process: launching raises, or the process ends with a return code, a standard
  output and a standard error. A streaming process: launching raises, or the process prints
  lines (\<open>None\<close> at the index where its output ends, if it ends); after the watching
  loop an exception may escape the termination step or \<open>communicate\<close>, and
  \<open>communicate\<close> returns the remaining output.
\<close>

datatype batch_result = BatchSpawnFailed string | BatchExit int string string

datatype streaming_result =
  StreamSpawnFailed string
  | Stream "nat \<Rightarrow> string option" "string option" string

text \<open>
  What the builder takes from outside the program: the exception of \<open>os.makedirs\<close> if it
  raises, the three identifiers drawn with \<open>uuid.uuid4()\<close>, \<open>sys.executable\<close>, the outcome of
  writing the file, the processes, what the launched process has done to the world by the
  time the builder goes on, and the exception of the archival block if one is raised there.
  Exceptions are given by their \<open>str\<close>.
\<close>

record builder_env =
  makedirs_error :: "string option"
  temp_uuid :: string
  name_uuid :: nat
  archive_uuid :: nat
  executable :: string
  write_file :: "string \<Rightarrow> string \<Rightarrow> write_result"
  batch_process :: "string list \<Rightarrow> batch_result"
  streaming_process :: "string list \<Rightarrow> streaming_result"
  process_effect :: "string list \<Rightarrow> world \<Rightarrow> world"
  storage_error :: "string \<Rightarrow> string \<Rightarrow> string option"

text \<open>What a step of the \<open>try\<close> block gives: a value, a \<open>CalledProcessError\<close> with its output,
  or another exception with its \<open>str\<close>.\<close>

datatype 'a tried = Ok 'a | CalledProcessErr string | Exc string

subsection \<open>The steps of \<open>generate_and_run_beam_pipeline\<close>\<close>

definition temp_filename :: "builder_env \<Rightarrow> string" where
  "temp_filename env =
     path_join ''plumber/agent/agents/dataflow_agent''
       (''temp_pipeline_'' @ temp_uuid env @ ''.py'')"

definition full_args ::
  "string \<Rightarrow> string \<Rightarrow> string \<Rightarrow> string \<Rightarrow> (string \<times> string) list \<Rightarrow> (string \<times> string) list" where
  "full_args project_id region gcs_bucket_path sanitized_job_name pipeline_args =
     foldl (\<lambda>d (k, v). dict_set d k v)
       [(''runner'', ''DataflowRunner''),
        (''project'', project_id),
        (''region'', region),
        (''job_name'', sanitized_job_name),
        (''temp_location'', path_join gcs_bucket_path ''temp''),
        (''staging_location'', path_join gcs_bucket_path ''staging''),
        (''labels'', ''{\"source\": \"plumber\"}'')]
       pipeline_args"

definition build_command :: "builder_env \<Rightarrow> (string \<times> string) list \<Rightarrow> string list" where
  "build_command env args =
     [executable env, temp_filename env] @ concat (map (\<lambda>(key, val). [''--'' @ key, val]) args)"

partial_function (option) watch_output ::
  "(nat \<Rightarrow> string option) \<Rightarrow> nat \<Rightarrow> string \<Rightarrow> (string \<times> string option) option" where
  "watch_output lines i output =
     (case lines i of
        None \<Rightarrow> Some (output, None)
      | Some line \<Rightarrow>
          (case find_job_id line of
             Some m \<Rightarrow> Some (output @ line, Some m)
           | None \<Rightarrow> watch_output lines (Suc i) (output @ line)))"

definition launch ::
  "builder_env \<Rightarrow> string list \<Rightarrow> string \<Rightarrow> world \<Rightarrow> ((string \<times> string option) tried \<times> world) option" where
  \<comment> \<open>the two branches on \<open>pipeline_type\<close>: the output and the identifier match, if any;
    \<open>None\<close> when the watching loop never ends\<close>
  "launch env command pipeline_type w =
     (if pipeline_type = ''streaming'' then
        (case streaming_process env command of
           StreamSpawnFailed msg \<Rightarrow> Some (Exc msg, w)
         | Stream lines stop_error remaining \<Rightarrow>
             (case watch_output lines 0 [] of
                None \<Rightarrow> None
              | Some (output, job_id_match) \<Rightarrow>
                  Some (case stop_error of
                          Some msg \<Rightarrow> Exc msg
                        | None \<Rightarrow>
                            (case job_id_match of
                               None \<Rightarrow> CalledProcessErr (output @ remaining)
                             | Some m \<Rightarrow> Ok (output, Some m)),
                        process_effect env command w)))
      else
        (case batch_process env command of
           BatchSpawnFailed msg \<Rightarrow> Some (Exc msg, w)
         | BatchExit returncode out err \<Rightarrow>
             let output = out @ err
             in Some (if returncode \<noteq> 0 then CalledProcessErr output
                      else Ok (output, find_job_id output),
                      process_effect env command w)))"

definition job_details :: "string \<Rightarrow> string \<Rightarrow> string \<Rightarrow> (string \<times> string) list" where
  \<comment> \<open>\<open>sorted(job_details.items())\<close>\<close>
  "job_details sanitized_job_name job_id output =
     (if find_quoted ''id'' output \<noteq> None
      then (case find_quoted ''clientRequestId'' output of
              Some v \<Rightarrow> [(''clientRequestId'', v)] | None \<Rightarrow> [])
           @ (case find_quoted ''createTime'' output of
                Some v \<Rightarrow> [(''createTime'', v)] | None \<Rightarrow> [])
      else [])
     @ [(''id'', job_id), (''name'', sanitized_job_name)]"

definition archive_path :: "builder_env \<Rightarrow> string \<Rightarrow> string \<Rightarrow> string \<times> string" where
  \<comment> \<open>the bucket and the object path of the archived script\<close>
  "archive_path env gcs_bucket_path sanitized_job_name =
     (case split_on CHR ''/'' (remove_gs gcs_bucket_path) of
        [] \<Rightarrow> ([], [])
      | bucket_name # path_parts \<Rightarrow>
          let base_prefix = py_join ''/'' (filter (\<lambda>p. p \<noteq> []) path_parts);
              script_filename =
                sanitized_job_name @ ''-'' @ take 8 (uuid_hex (archive_uuid env)) @ ''.py'';
              gcs_path_str =
                path_join (path_join base_prefix ''generated_pipelines'') script_filename
          in (bucket_name, gcs_path_str))"

definition archive ::
  "builder_env \<Rightarrow> string \<Rightarrow> string \<Rightarrow> string \<Rightarrow> world \<Rightarrow> (string + string) \<times> world" where
  \<comment> \<open>the inner \<open>try\<close>: \<open>Inr gcs_path\<close> after the upload, \<open>Inl\<close> the \<open>str\<close> of \<open>gcs_error\<close>\<close>
  "archive env gcs_bucket_path sanitized_job_name pipeline_code w =
     (let (bucket_name, gcs_path_str) = archive_path env gcs_bucket_path sanitized_job_name
      in case storage_error env bucket_name gcs_path_str of
           Some msg \<Rightarrow> (Inl msg, w)
         | None \<Rightarrow>
             (Inr (''gs://'' @ bucket_name @ ''/'' @ gcs_path_str),
              put_blob (bucket_name, gcs_path_str) pipeline_code w))"

definition final_report :: "string \<Rightarrow> string \<Rightarrow> string \<Rightarrow> string + string \<Rightarrow> pydict" where
  "final_report sanitized_job_name job_id output archived =
     (let report_lines =
            [''Successfully launched Dataflow job '' @ [CHR 0x27] @ sanitized_job_name
               @ [CHR 0x27] @ ''.'',
             ''Job Details:'']
            @ map (\<lambda>(key, val). ''  '' @ key @ '': '' @ val)
                (job_details sanitized_job_name job_id output)
            @ (case archived of
                 Inr gcs_path \<Rightarrow> [newline @ ''The pipeline script was saved to '' @ gcs_path]
               | Inl gcs_error \<Rightarrow>
                   [newline @ ''WARNING: Failed to save the script to GCS. Error: ''
                      @ gcs_error])
      in [(''status'',
           Str (case archived of Inr _ \<Rightarrow> ''success'' | Inl _ \<Rightarrow> ''success_with_warning'')),
          (''report'', Str (py_join newline report_lines)),
          (''job_id'', Str job_id),
          (''gcs_script_path'', (case archived of Inr gcs_path \<Rightarrow> Str gcs_path | Inl _ \<Rightarrow> PyNone))])"

definition try_body ::
  "builder_env \<Rightarrow> string \<Rightarrow> string \<Rightarrow> string \<Rightarrow> string \<Rightarrow> (string \<times> string) list \<Rightarrow> string
     \<Rightarrow> string \<Rightarrow> world \<Rightarrow> (pydict tried \<times> world) option" where
  \<comment> \<open>the \<open>try\<close> block: the value returned or the exception raised, and the world\<close>
  "try_body env project_id region gcs_bucket_path sanitized_job_name pipeline_args
       pipeline_type pipeline_code w =
     (case write_file env (temp_filename env) pipeline_code of
        OpenFailed msg \<Rightarrow> Some (Exc msg, w)
      | WriteFailed msg partial \<Rightarrow>
          Some (Exc msg, put_file (temp_filename env) partial w)
      | Written \<Rightarrow>
          let w1 = put_file (temp_filename env) pipeline_code w;
              command = build_command env
                (full_args project_id region gcs_bucket_path sanitized_job_name pipeline_args)
          in (case launch env command pipeline_type w1 of
               None \<Rightarrow> None
             | Some (Exc msg, w2) \<Rightarrow> Some (Exc msg, w2)
             | Some (CalledProcessErr output, w2) \<Rightarrow> Some (CalledProcessErr output, w2)
             | Some (Ok (output, None), w2) \<Rightarrow>
                 Some (Ok [(''status'', Str ''error''),
                           (''error_message'',
                            Str (''Job launched, but could not find Job ID in output. Full output:''
                                 @ newline @ output))], w2)
             | Some (Ok (output, Some job_id), w2) \<Rightarrow>
                 let (archived, w3) =
                       archive env gcs_bucket_path sanitized_job_name pipeline_code w2
                 in Some (Ok (final_report sanitized_job_name job_id output archived), w3)))"

definition handlers :: "pydict tried \<Rightarrow> pydict" where
  \<comment> \<open>the two \<open>except\<close> clauses\<close>
  "handlers t =
     (case t of
        Ok result \<Rightarrow> result
      | CalledProcessErr output \<Rightarrow>
          [(''status'', Str ''error''),
           (''error_message'',
            Str (''Failed to execute pipeline script.'' @ newline @ ''--- ERROR ---'' @ newline
                 @ output))]
      | Exc msg \<Rightarrow>
          [(''status'', Str ''error''), (''error_message'', Str (''Unexpected error: '' @ msg))])"

definition cleanup :: "builder_env \<Rightarrow> world \<Rightarrow> world" where
  \<comment> \<open>the \<open>finally\<close> clause: \<open>if os.path.exists(temp_filename): os.remove(temp_filename)\<close>;
    removing an existing file is taken to succeed\<close>
  "cleanup env w =
     (if files w (temp_filename env) \<noteq> None
      then remove_file (temp_filename env) w else w)"

text \<open>
  \<open>generate_and_run_beam_pipeline\<close> of \<open>pipeline_utils.py\<close>. The function returns the JSON text
  of a \<open>dict\<close> (\<open>Returned\<close>: the \<open>dict\<close>), or \<open>os.makedirs\<close>, which is called before the \<open>try\<close>
  block, raises (\<open>Raised\<close>). The result is \<open>None\<close> when the function never returns.
\<close>

datatype outcome = Returned pydict | Raised string

definition generate_and_run_beam_pipeline ::
  "builder_env \<Rightarrow> string \<Rightarrow> string \<Rightarrow> string \<Rightarrow> string \<Rightarrow> string \<Rightarrow> (string \<times> string) list
     \<Rightarrow> string \<Rightarrow> world \<Rightarrow> (outcome \<times> world) option" where
  "generate_and_run_beam_pipeline env project_id region gcs_bucket_path job_name pipeline_code
       pipeline_args pipeline_type w =
     (if project_id = [] \<or> region = [] \<or> gcs_bucket_path = []
      then Some (Returned [(''status'', Str ''error''),
                           (''error_message'',
                            Str ''project_id, region, and gcs_bucket_path are required.'')], w)
      else if take 5 gcs_bucket_path \<noteq> ''gs://''
      then Some (Returned [(''status'', Str ''error''),
                           (''error_message'',
                            Str (''gcs_bucket_path must start with '' @ [CHR 0x27] @ ''gs://''
                                 @ [CHR 0x27] @ ''.''))], w)
      else
        (case makedirs_error env of
           Some msg \<Rightarrow> Some (Raised msg, w)
         | None \<Rightarrow>
             let sanitized_job_name = sanitize_job_name (name_uuid env) job_name
             in (case try_body env project_id region gcs_bucket_path sanitized_job_name
                        pipeline_args pipeline_type pipeline_code w of
                   None \<Rightarrow> None
                 | Some (t, w') \<Rightarrow> Some (Returned (handlers t), cleanup env w'))))"

text \<open>Names used to state the properties of the builder.\<close>

definition launched_with_id ::
  "builder_env \<Rightarrow> string \<Rightarrow> string \<Rightarrow> string \<Rightarrow> string \<Rightarrow> string \<Rightarrow> (string \<times> string) list
     \<Rightarrow> string \<Rightarrow> world \<Rightarrow> string \<Rightarrow> string \<Rightarrow> world \<Rightarrow> bool" where
  \<comment> \<open>the arguments pass the checks, the file is written, and the launch gives the output
    \<open>output\<close> with the identifier \<open>job_id\<close> found in it\<close>
  "launched_with_id env project_id region gcs_bucket_path job_name pipeline_code pipeline_args
       pipeline_type w output job_id w2 =
     (project_id \<noteq> [] \<and> region \<noteq> [] \<and> take 5 gcs_bucket_path = ''gs://''
      \<and> makedirs_error env = None
      \<and> write_file env (temp_filename env) pipeline_code = Written
      \<and> launch env
            (build_command env
               (full_args project_id region gcs_bucket_path
                  (sanitize_job_name (name_uuid env) job_name) pipeline_args))
            pipeline_type (put_file (temp_filename env) pipeline_code w)
          = Some (Ok (output, Some job_id), w2))"

definition stops :: "(nat \<Rightarrow> string option) \<Rightarrow> bool" where
  \<comment> \<open>the output of a streaming process ends, or one of its lines holds an identifier\<close>
  "stops lines = (\<exists>n. case lines n of None \<Rightarrow> True | Some line \<Rightarrow> find_job_id line \<noteq> None)"

subsection \<open>Concrete environments for the builder\<close>

text \<open>
  An environment in which the file is written, the batch process exits with status 0 after
  printing an identifier, the streaming process prints an identifier on its second line and
  goes on printing, and the archival raises; a variant whose batch process prints no
  identifier; a variant whose archival succeeds.
\<close>

definition example_lines :: "nat \<Rightarrow> string option" where
  "example_lines n =
     (if n = 0 then Some ''starting''
      else if n = 1 then Some ''job 2024-05-01_10_20_30-42 submitted''
      else Some ''tick'')"

definition example_builder_env :: builder_env where
  "example_builder_env =
     \<lparr>makedirs_error = None, temp_uuid = ''u1'', name_uuid = 0, archive_uuid = 0,
      executable = ''python3'', write_file = (\<lambda>path content. Written),
      batch_process = (\<lambda>cmd. BatchExit 0 ''Job 2024-05-01_10_20_30-1234567 started'' []),
      streaming_process = (\<lambda>cmd. Stream example_lines None []),
      process_effect = (\<lambda>cmd w. w),
      storage_error = (\<lambda>bucket path. Some ''403 Forbidden'')\<rparr>"

definition quiet_builder_env :: builder_env where
  "quiet_builder_env =
     example_builder_env\<lparr>batch_process := (\<lambda>cmd. BatchExit 0 ''done'' [])\<rparr>"

definition archiving_builder_env :: builder_env where
  "archiving_builder_env =
     example_builder_env\<lparr>storage_error := (\<lambda>bucket path. None)\<rparr>"

definition empty_world :: world where
  "empty_world = \<lparr>files = Map.empty, blobs = Map.empty\<rparr>"

section \<open>Properties of the sanitizer\<close>

lemma code_hyphen: "code CHR ''-'' = 45"
  by (simp add: code_def)

lemma name_char_cases: "is_name_char c \<Longrightarrow> c \<noteq> CHR ''-'' \<Longrightarrow> is_alnum_lc c"
  by (auto simp: is_name_char_def is_alnum_lc_def)

lemma alnum_lc_isalnum: "is_alnum_lc c \<Longrightarrow> py_isalnum c"
  by (auto simp: is_alnum_lc_def py_isalnum_def py_isalpha_def is_lower_az_def is_digit09_def)

lemma name_char_isalpha: "is_name_char c \<Longrightarrow> py_isalpha c = is_lower_az c"
  by (auto simp: is_name_char_def py_isalpha_def is_lower_az_def is_digit09_def between_def code_hyphen)

lemma sub_invalid_chars: "list_all is_name_char (sub_invalid s)"
  by (induction s) (auto simp: sub_invalid_def is_name_char_def)

lemma set_collapse_hyphens: "set (collapse_hyphens s) \<subseteq> set s"
  by (induction s rule: collapse_hyphens.induct) auto

lemma set_strip_hyphens: "set (strip_hyphens s) \<subseteq> set s"
proof -
  have "set (strip_hyphens s) \<subseteq> set (dropWhile (\<lambda>d. d = CHR ''-'') s)"
    unfolding strip_hyphens_def using set_dropWhileD by fastforce
  also have "\<dots> \<subseteq> set s" using set_dropWhileD by fastforce
  finally show ?thesis .
qed

lemma last_dropWhile_nonempty: "dropWhile P xs \<noteq> [] \<Longrightarrow> last (dropWhile P xs) = last xs"
  by (induction xs) (auto split: if_splits)

lemma hd_strip_hyphens: "strip_hyphens s \<noteq> [] \<Longrightarrow> hd (strip_hyphens s) \<noteq> CHR ''-''"
proof -
  assume ne: "strip_hyphens s \<noteq> []"
  define ys where "ys = dropWhile (\<lambda>d. d = CHR ''-'') s"
  define zs where "zs = dropWhile (\<lambda>d. d = CHR ''-'') (rev ys)"
  have st: "strip_hyphens s = rev zs" by (simp only: strip_hyphens_def ys_def zs_def)
  have zs: "zs \<noteq> []" using ne unfolding st by simp
  then have ys: "ys \<noteq> []" unfolding zs_def by auto
  have "hd (rev zs) = last zs" by (rule hd_rev)
  also have "\<dots> = last (rev ys)" using zs unfolding zs_def by (rule last_dropWhile_nonempty)
  also have "\<dots> = hd ys" by (rule last_rev)
  finally have "hd (strip_hyphens s) = hd ys" unfolding st .
  moreover have "hd ys \<noteq> CHR ''-''"
    using ys hd_dropWhile[of "\<lambda>d. d = CHR ''-''" s] unfolding ys_def by blast
  ultimately show ?thesis by simp
qed

lemma last_strip_hyphens: "strip_hyphens s \<noteq> [] \<Longrightarrow> last (strip_hyphens s) \<noteq> CHR ''-''"
proof -
  assume ne: "strip_hyphens s \<noteq> []"
  define ys where "ys = dropWhile (\<lambda>d. d = CHR ''-'') s"
  define zs where "zs = dropWhile (\<lambda>d. d = CHR ''-'') (rev ys)"
  have st: "strip_hyphens s = rev zs" by (simp only: strip_hyphens_def ys_def zs_def)
  have zs: "zs \<noteq> []" using ne unfolding st by simp
  have "last (rev zs) = hd zs" by (rule last_rev)
  moreover have "hd zs \<noteq> CHR ''-''"
    using zs hd_dropWhile[of "\<lambda>d. d = CHR ''-''" "rev ys"] unfolding zs_def by blast
  ultimately show ?thesis unfolding st by simp
qed

lemma length_uuid_hex: "length (uuid_hex u) = 32"
  by (simp add: uuid_hex_def)

lemma hex_digit_hex: "is_hex_char (hex_digit n)"
proof -
  have "hex_digit n \<in> set ''0123456789abcdef''"
    unfolding hex_digit_def by (rule nth_mem) simp
  moreover have "\<forall>c \<in> set ''0123456789abcdef''. is_hex_char c"
    by (simp add: is_hex_char_def is_digit09_def between_def code_def)
  ultimately show ?thesis by blast
qed

lemma uuid_hex_chars: "list_all is_hex_char (uuid_hex u)"
  by (simp add: uuid_hex_def list_all_iff hex_digit_hex)

lemma fallback_shape: "is_fallback_name (''job-'' @ take 8 (uuid_hex u))"
proof -
  have "set (take 8 (uuid_hex u)) \<subseteq> set (uuid_hex u)" by (rule set_take_subset)
  then have "list_all is_hex_char (take 8 (uuid_hex u))"
    using uuid_hex_chars[of u] unfolding list_all_iff by blast
  then show ?thesis
    by (simp add: is_fallback_name_def length_uuid_hex)
qed

lemma cleaned_chars: "list_all is_name_char (cleaned x)"
proof -
  have "set (cleaned x) \<subseteq> set (sub_invalid (py_lower x))"
    unfolding cleaned_def using set_strip_hyphens set_collapse_hyphens by blast
  then show ?thesis using sub_invalid_chars[of "py_lower x"] unfolding list_all_iff by blast
qed

lemma sanitize_unfold:
  "sanitize_job_name u x =
     (if cleaned x = [] then ''job-'' @ take 8 (uuid_hex u) else take 63 (prefixed (cleaned x)))"
proof (cases "cleaned x = []")
  case True
  then show ?thesis by (simp add: sanitize_job_name_def cleaned_def)
next
  case False
  let ?c = "cleaned x"
  have nc: "is_name_char (last ?c)" using False cleaned_chars[of x] by (simp add: list_all_iff)
  have "last ?c \<noteq> CHR ''-''" using False last_strip_hyphens unfolding cleaned_def by blast
  then have "py_isalnum (last ?c)" using nc name_char_cases alnum_lc_isalnum by blast
  moreover have "last (prefixed ?c) = last ?c" using False by (simp add: prefixed_def)
  ultimately have "py_isalnum (last (prefixed ?c))" by simp
  then show ?thesis using False
    by (simp add: sanitize_job_name_def cleaned_def prefixed_def Let_def)
qed

lemma prefixed_props:
  assumes "cleaned x \<noteq> []"
  shows "prefixed (cleaned x) \<noteq> []" "is_lower_az (hd (prefixed (cleaned x)))"
    "list_all is_name_char (prefixed (cleaned x))" "is_alnum_lc (last (prefixed (cleaned x)))"
proof -
  let ?c = "cleaned x"
  have ch: "list_all is_name_char ?c" by (rule cleaned_chars)
  have j: "list_all is_name_char ''job-''"
    by (simp add: is_name_char_def is_lower_az_def is_digit09_def between_def code_def)
  show "prefixed ?c \<noteq> []" using assms by (simp add: prefixed_def)
  have "is_name_char (hd ?c)" using assms ch by (cases ?c) auto
  then have "py_isalpha (hd ?c) \<Longrightarrow> is_lower_az (hd ?c)" by (simp add: name_char_isalpha)
  moreover have "is_lower_az CHR ''j''" by (simp add: is_lower_az_def between_def code_def)
  ultimately show "is_lower_az (hd (prefixed ?c))" using assms by (auto simp: prefixed_def)
  show "list_all is_name_char (prefixed ?c)" using ch j by (simp add: prefixed_def)
  have "is_name_char (last ?c)" using assms ch by (simp add: list_all_iff)
  moreover have "last ?c \<noteq> CHR ''-''" using assms last_strip_hyphens unfolding cleaned_def by blast
  ultimately have "is_alnum_lc (last ?c)" by (rule name_char_cases)
  then show "is_alnum_lc (last (prefixed ?c))" using assms by (simp add: prefixed_def)
qed

text \<open>
  Two examples of the specification: \<open>sanitize(" My Job!! ")\<close> is \<open>"my-job"\<close>, and the empty name
  gives \<open>job-\<close> followed by the first eight hexadecimal digits of the identifier drawn.
\<close>

lemma sanitize_example: "sanitize_job_name 0 '' My Job!! '' = ''my-job''"
  by code_simp

lemma sanitize_empty: "sanitize_job_name u [] = ''job-'' @ take 8 (uuid_hex u)"
  by (simp add: sanitize_unfold cleaned_def py_lower_def sub_invalid_def strip_hyphens_def)

text \<open>
  C3 (idempotence of the sanitizer) fails on the code. The name of 62 letters \<open>a\<close> followed by
  \<open>-b\<close> is cut to 63 characters after the trailing character has been checked, so the result
  ends with a hyphen; sanitizing that result again strips the hyphen and returns 62 letters.
\<close>

theorem sanitize_job_name_truncation_leaves_hyphen:
  "sanitize_job_name 0 (replicate 62 CHR ''a'' @ ''-b'') = replicate 62 CHR ''a'' @ ''-''
   \<and> sanitize_job_name 0 (replicate 62 CHR ''a'' @ ''-'') = replicate 62 CHR ''a''"
  by code_simp

text \<open>
  C4, as stated, fails: the one-letter name \<open>a\<close> is returned unchanged, and it neither matches
  \<open>^[a-z][a-z0-9-]*[a-z0-9]$\<close>, which needs two characters, nor is of the fallback form.
\<close>

theorem sanitize_job_name_single_letter:
  "\<not> (job_name_regex (sanitize_job_name 0 ''a'') \<or> is_fallback_name (sanitize_job_name 0 ''a''))"
  by code_simp

text \<open>
  C4, amended: every output has at most 63 characters, and it matches
  \<open>^[a-z][a-z0-9-]*[a-z0-9]$\<close>, or is of the fallback form, or is a single lower-case letter, or
  has exactly 63 characters, starts with a lower-case letter and consists of characters of
  \<open>[a-z0-9-]\<close> only (nothing is said about the last character of a 63-character output).
  The empty name gives the fallback form.
\<close>

theorem sanitize_job_name_shape:
  "length (sanitize_job_name u x) \<le> 63 \<and>
   (job_name_regex (sanitize_job_name u x) \<or> is_fallback_name (sanitize_job_name u x)
    \<or> (length (sanitize_job_name u x) = 1 \<and> is_lower_az (hd (sanitize_job_name u x)))
    \<or> (length (sanitize_job_name u x) = 63 \<and> is_lower_az (hd (sanitize_job_name u x))
        \<and> list_all is_name_char (sanitize_job_name u x)))
   \<and> is_fallback_name (sanitize_job_name u [])"
proof -
  have e: "cleaned [] = []" by (simp add: cleaned_def py_lower_def sub_invalid_def strip_hyphens_def)
  have fb: "is_fallback_name (sanitize_job_name u [])"
    using fallback_shape by (simp add: sanitize_unfold e)
  show ?thesis
  proof (cases "cleaned x = []")
    case True
    then have y: "sanitize_job_name u x = ''job-'' @ take 8 (uuid_hex u)" by (simp add: sanitize_unfold)
    have "is_fallback_name (sanitize_job_name u x)" unfolding y by (rule fallback_shape)
    moreover have "length (sanitize_job_name u x) \<le> 63" unfolding y by (simp add: length_uuid_hex)
    ultimately show ?thesis using fb by simp
  next
    case False
    let ?z = "prefixed (cleaned x)"
    have y: "sanitize_job_name u x = take 63 ?z" using False by (simp add: sanitize_unfold)
    note p = prefixed_props[OF False]
    have hd: "is_lower_az (hd (take 63 ?z))" using p(1,2) by (cases ?z) auto
    have "set (take 63 ?z) \<subseteq> set ?z" by (rule set_take_subset)
    then have all: "list_all is_name_char (take 63 ?z)" using p(3) unfolding list_all_iff by blast
    show ?thesis
    proof (cases "length ?z \<le> 63")
      case True
      then have t: "take 63 ?z = ?z" by simp
      have "length ?z = 1 \<or> 2 \<le> length ?z" using p(1) by (cases ?z) (auto simp: Suc_le_eq)
      then show ?thesis using True fb p unfolding y t by (auto simp: job_name_regex_def)
    next
      case False
      then have "length (take 63 ?z) = 63" by simp
      then show ?thesis using fb hd all unfolding y by simp
    qed
  qed
qed

text \<open>
  Away from the truncation the sanitizer is idempotent: an output that does not end with a
  hyphen is returned unchanged when it is sanitized again.
\<close>

lemma collapse_hd: "s \<noteq> [] \<Longrightarrow> hd (collapse_hyphens s) = hd s"
  by (induction s rule: collapse_hyphens.induct) auto

lemma collapse_nonempty: "s \<noteq> [] \<Longrightarrow> collapse_hyphens s \<noteq> []"
  by (induction s rule: collapse_hyphens.induct) auto

lemma collapse_no_double: "no_double_hyphen (collapse_hyphens s)"
proof (induction s rule: collapse_hyphens.induct)
  case 1
  then show ?case by simp
next
  case (2 c)
  then show ?case by simp
next
  case (3 c d s)
  have ne: "collapse_hyphens (d # s) \<noteq> []" by (rule collapse_nonempty) simp
  have h: "hd (collapse_hyphens (d # s)) = d" using collapse_hd[of "d # s"] by simp
  obtain e t where et: "collapse_hyphens (d # s) = e # t" using ne by (cases "collapse_hyphens (d # s)") auto
  then have "e = d" using h by simp
  then show ?case using 3 et by auto
qed

lemma collapse_id: "no_double_hyphen s \<Longrightarrow> collapse_hyphens s = s"
  by (induction s rule: collapse_hyphens.induct) auto

lemma no_double_tl: "no_double_hyphen (c # s) \<Longrightarrow> no_double_hyphen s"
  by (cases s) auto

lemma no_double_suffix: "no_double_hyphen (a @ s) \<Longrightarrow> no_double_hyphen s"
  by (induction a) (auto dest: no_double_tl)

lemma no_double_prefix: "no_double_hyphen (s @ b) \<Longrightarrow> no_double_hyphen s"
  by (induction s rule: no_double_hyphen.induct) auto

lemma strip_infix: "\<exists>a b. s = a @ strip_hyphens s @ b"
proof -
  define ys where "ys = dropWhile (\<lambda>d. d = CHR ''-'') s"
  define ts where "ts = takeWhile (\<lambda>d. d = CHR ''-'') (rev ys)"
  define ds where "ds = dropWhile (\<lambda>d. d = CHR ''-'') (rev ys)"
  have 1: "s = takeWhile (\<lambda>d. d = CHR ''-'') s @ ys" by (simp add: ys_def)
  have "ts @ ds = rev ys" unfolding ts_def ds_def by (rule takeWhile_dropWhile_id)
  then have "rev (ts @ ds) = rev (rev ys)" by (rule arg_cong)
  then have 2: "ys = rev ds @ rev ts" by (simp only: rev_append rev_rev_ident)
  have 3: "strip_hyphens s = rev ds" by (simp only: strip_hyphens_def ds_def ys_def)
  have "s = takeWhile (\<lambda>d. d = CHR ''-'') s @ strip_hyphens s @ rev ts"
    using 1 2 3 by simp
  then show ?thesis by blast
qed

lemma strip_no_double: "no_double_hyphen s \<Longrightarrow> no_double_hyphen (strip_hyphens s)"
proof -
  assume n: "no_double_hyphen s"
  obtain a b where "s = a @ strip_hyphens s @ b" using strip_infix by blast
  then have "no_double_hyphen (a @ strip_hyphens s @ b)" using n by simp
  then have "no_double_hyphen (strip_hyphens s @ b)" by (rule no_double_suffix)
  then show ?thesis by (rule no_double_prefix)
qed

lemma cleaned_no_double: "no_double_hyphen (cleaned x)"
  unfolding cleaned_def by (rule strip_no_double) (rule collapse_no_double)

lemma no_double_cons: "no_double_hyphen s \<Longrightarrow> s \<noteq> [] \<Longrightarrow> hd s \<noteq> CHR ''-'' \<Longrightarrow> no_double_hyphen (c # s)"
  by (cases s) auto

lemma no_hyphen_no_double: "CHR ''-'' \<notin> set s \<Longrightarrow> no_double_hyphen s"
  by (induction s rule: no_double_hyphen.induct) auto

lemma no_hyphen_after: "CHR ''-'' \<notin> set s \<Longrightarrow> no_double_hyphen (c # s)"
  by (cases s) (auto simp: no_hyphen_no_double)

lemma prefixed_no_double:
  assumes "cleaned x \<noteq> []"
  shows "no_double_hyphen (prefixed (cleaned x))"
proof -
  have h: "hd (cleaned x) \<noteq> CHR ''-''"
    using assms hd_strip_hyphens unfolding cleaned_def by blast
  have n: "no_double_hyphen (cleaned x)" by (rule cleaned_no_double)
  have "no_double_hyphen (CHR ''-'' # cleaned x)" using n assms h by (rule no_double_cons)
  then have "no_double_hyphen (''job-'' @ cleaned x)" by simp
  then show ?thesis using n by (simp add: prefixed_def)
qed

lemma hex_not_hyphen: "is_hex_char c \<Longrightarrow> c \<noteq> CHR ''-''"
  by (auto simp: is_hex_char_def is_digit09_def between_def code_def)

lemma fallback_no_double: "no_double_hyphen (''job-'' @ take 8 (uuid_hex u))"
proof -
  let ?h = "take 8 (uuid_hex u)"
  have "set ?h \<subseteq> set (uuid_hex u)" by (rule set_take_subset)
  then have nh: "CHR ''-'' \<notin> set ?h"
    using uuid_hex_chars[of u] hex_not_hyphen unfolding list_all_iff by blast
  have "no_double_hyphen (CHR ''-'' # ?h)"
    using nh by (rule no_hyphen_after)
  then show ?thesis by simp
qed

lemma take_clean: "clean_name z \<Longrightarrow> clean_name (take 63 z)"
proof -
  assume c: "clean_name z"
  then obtain e t where z: "z = e # t" unfolding clean_name_def by (cases z) auto
  have "set (take 63 z) \<subseteq> set z" by (rule set_take_subset)
  then have a: "list_all is_name_char (take 63 z)" using c unfolding clean_name_def list_all_iff by blast
  have "z = take 63 z @ drop 63 z" by simp
  then have "no_double_hyphen (take 63 z @ drop 63 z)" using c unfolding clean_name_def by simp
  then have n: "no_double_hyphen (take 63 z)" by (rule no_double_prefix)
  show ?thesis using c a n unfolding clean_name_def z by simp
qed

lemma sanitize_clean: "clean_name (sanitize_job_name u x)"
proof (cases "cleaned x = []")
  case True
  have f: "is_fallback_name (''job-'' @ take 8 (uuid_hex u))" by (rule fallback_shape)
  have "list_all is_name_char (take 8 (uuid_hex u))"
    using f by (auto simp: is_fallback_name_def list_all_iff is_hex_char_def is_name_char_def
        is_lower_az_def between_def)
  moreover have "list_all is_name_char ''job-''"
    by (simp add: is_name_char_def is_lower_az_def is_digit09_def between_def code_def)
  moreover have "is_lower_az CHR ''j''" by (simp add: is_lower_az_def between_def code_def)
  ultimately show ?thesis using True fallback_no_double[of u]
    by (simp add: sanitize_unfold clean_name_def)
next
  case False
  have "clean_name (prefixed (cleaned x))"
    using prefixed_props[OF False] prefixed_no_double[OF False] by (simp add: clean_name_def)
  then have "clean_name (take 63 (prefixed (cleaned x)))" by (rule take_clean)
  then show ?thesis using False by (simp add: sanitize_unfold)
qed

lemma lower_name_char: "is_name_char c \<Longrightarrow> lower_char c = c"
  by (auto simp: is_name_char_def is_lower_az_def is_digit09_def lower_char_def between_def
      code_def)

lemma clean_fixed:
  assumes "clean_name y" and "last y \<noteq> CHR ''-''" and "length y \<le> 63"
  shows "sanitize_job_name u y = y"
proof -
  from assms(1) obtain e t where y: "y = e # t" unfolding clean_name_def by (cases y) auto
  have ch: "\<forall>c \<in> set y. is_name_char c" using assms(1) by (simp add: clean_name_def list_all_iff)
  have l: "py_lower y = y" unfolding py_lower_def using ch lower_name_char by (simp add: map_idI)
  have s: "sub_invalid y = y" unfolding sub_invalid_def using ch by (simp add: map_idI)
  have c: "collapse_hyphens y = y" using assms(1) by (simp add: clean_name_def collapse_id)
  have hd: "is_lower_az (hd y)" using assms(1) by (simp add: clean_name_def)
  then have e: "e \<noteq> CHR ''-''" unfolding y by (auto simp: is_lower_az_def between_def code_def)
  have "hd (rev y) = last y" by (rule hd_rev)
  then have r: "rev y \<noteq> []" "hd (rev y) \<noteq> CHR ''-''" using assms(2) y by simp_all
  then obtain f v where fv: "rev y = f # v" by (cases "rev y") auto
  then have "f \<noteq> CHR ''-''" using r by simp
  then have "dropWhile (\<lambda>d. d = CHR ''-'') (rev y) = rev y" unfolding fv by simp
  moreover have "dropWhile (\<lambda>d. d = CHR ''-'') y = y" unfolding y using e by simp
  ultimately have st: "strip_hyphens y = y" by (simp add: strip_hyphens_def)
  have cl: "cleaned y = y" by (simp add: cleaned_def l s c st)
  have "is_name_char (hd y)" using ch y by simp
  then have "py_isalpha (hd y)" using hd by (simp add: name_char_isalpha)
  then have pr: "prefixed y = y" by (simp add: prefixed_def)
  have ne: "y \<noteq> []" using y by simp
  have "sanitize_job_name u y = take 63 (prefixed (cleaned y))"
    using ne by (simp only: sanitize_unfold cl if_False)
  also have "\<dots> = take 63 y" by (simp only: cl pr)
  also have "\<dots> = y" using assms(3) by simp
  finally show ?thesis .
qed

lemma sanitize_idempotent_without_trailing_hyphen:
  assumes "last (sanitize_job_name u x) \<noteq> CHR ''-''"
  shows "sanitize_job_name u' (sanitize_job_name u x) = sanitize_job_name u x"
proof -
  have "length (sanitize_job_name u x) \<le> 63"
    by (simp add: sanitize_unfold length_uuid_hex)
  then show ?thesis using sanitize_clean assms by (intro clean_fixed)
qed

section \<open>Properties of the validators\<close>

lemma py_set_strs: "py_set (JArr (map JStr xs)) = Inr (map JStr xs)"
  by (simp add: py_set_def list_all_iff hashable_def)

lemma validate_input_params_wellshaped:
  assumes "dict_get S ''required'' (JArr []) = Inr (JArr (map JStr req))"
    and "dict_get S ''optional'' (JArr []) = Inr (JArr (map JStr opt))"
  shows "validate_input_params S (JObj P) =
     (if \<not> set (map fst P) \<subseteq> set req \<union> set opt
      then [(''validation_result'', Str ''failed''),
            (''comment'', InvalidParams (set (map fst P) - (set req \<union> set opt))
                            (JArr (map JStr (req @ opt))))]
      else if \<not> set req \<subseteq> set (map fst P)
      then [(''validation_result'', Str ''failed''),
            (''comment'', MissingRequired (JStr ` (set req - set (map fst P))))]
      else [(''validation_result'', Str ''success''), (''comment'', Str ''Validation Passed'')])"
proof -
  define inv where "inv = filter (\<lambda>k. JStr k \<notin> set (map JStr (req @ opt))) (map fst P)"
  define mis where "mis = filter (\<lambda>r. r \<notin> set (map JStr (map fst P))) (map JStr req)"
  have a: "py_set (JArr (map JStr req @ map JStr opt)) = Inr (map JStr (req @ opt))"
    using py_set_strs[of "req @ opt"] by simp
  have body: "validate_input_params_body S (JObj P) =
     (if inv \<noteq> []
      then Inr [(''validation_result'', Str ''failed''),
                (''comment'', InvalidParams (set inv) (JArr (map JStr (req @ opt))))]
      else if mis \<noteq> []
      then Inr [(''validation_result'', Str ''failed''),
                (''comment'', MissingRequired (hash_key ` set mis))]
      else Inr [(''validation_result'', Str ''success''),
                (''comment'', Str ''Validation Passed'')])"
    unfolding validate_input_params_body_def inv_def mis_def
    by (simp add: assms a py_set_strs dict_keys_def Let_def)
  have inv_nil: "(inv = []) = (set (map fst P) \<subseteq> set req \<union> set opt)"
    unfolding inv_def by (auto simp: filter_empty_conv)
  have inv_set: "set inv = set (map fst P) - (set req \<union> set opt)"
    unfolding inv_def by auto
  have mis_nil: "(mis = []) = (set req \<subseteq> set (map fst P))"
    unfolding mis_def by (auto simp: filter_empty_conv)
  have "set mis = JStr ` (set req - set (map fst P))"
    unfolding mis_def by auto
  then have mis_set: "hash_key ` set mis = JStr ` (set req - set (map fst P))"
    by (simp add: image_image hash_key_def)
  show ?thesis
  proof (cases "set (map fst P) \<subseteq> set req \<union> set opt")
    case False
    then have "inv \<noteq> []" by (simp only: inv_nil not_False_eq_True)
    then show ?thesis
      unfolding validate_input_params_def body using False by (simp add: inv_set)
  next
    case legal: True
    then have i: "inv = []" by (simp only: inv_nil)
    show ?thesis
    proof (cases "set req \<subseteq> set (map fst P)")
      case False
      then have "mis \<noteq> []" by (simp only: mis_nil not_False_eq_True)
      then show ?thesis
        unfolding validate_input_params_def body using False legal i by (simp add: mis_set)
    next
      case True
      then have "mis = []" by (simp only: mis_nil)
      then show ?thesis
        unfolding validate_input_params_def body using True legal i by simp
    qed
  qed
qed

lemma dataproc_validate_input_params_wellshaped:
  assumes "dict_get S ''required'' (JArr []) = Inr (JArr (map JStr req))"
    and "dict_get S ''optional'' (JArr []) = Inr (JArr (map JStr opt))"
  shows "dataproc_validate_input_params S (JObj P) =
     (if \<not> set (map fst P) \<subseteq> set req \<union> set opt
      then [(''validation_result'', Str ''failed''), (''comment'', Str ''Invalid param passed'')]
      else if \<not> set req \<subseteq> set (map fst P)
      then [(''validation_result'', Str ''failed''), (''comment'', Str ''Missing required params'')]
      else [(''validation_result'', Str ''success''), (''comment'', Str ''Validation Passed'')])"
proof -
  define inv where "inv = filter (\<lambda>k. JStr k \<notin> set (map JStr (req @ opt))) (map fst P)"
  define sub where "sub = (set (map JStr req) \<subseteq> set (map JStr (map fst P)))"
  have a: "py_set (JArr (map JStr req @ map JStr opt)) = Inr (map JStr (req @ opt))"
    using py_set_strs[of "req @ opt"] by simp
  have body: "dataproc_validate_input_params_body S (JObj P) =
     (if inv \<noteq> []
      then Inr [(''validation_result'', Str ''failed''), (''comment'', Str ''Invalid param passed'')]
      else if \<not> sub
      then Inr [(''validation_result'', Str ''failed''), (''comment'', Str ''Missing required params'')]
      else Inr [(''validation_result'', Str ''success''),
                (''comment'', Str ''Validation Passed'')])"
    unfolding dataproc_validate_input_params_body_def inv_def sub_def
    by (simp add: assms a py_set_strs dict_keys_def Let_def)
  have inv_nil: "(inv = []) = (set (map fst P) \<subseteq> set req \<union> set opt)"
    unfolding inv_def by (auto simp: filter_empty_conv)
  have sub_eq: "sub = (set req \<subseteq> set (map fst P))"
    unfolding sub_def by auto
  show ?thesis
  proof (cases "set (map fst P) \<subseteq> set req \<union> set opt")
    case False
    then have "inv \<noteq> []" by (simp only: inv_nil not_False_eq_True)
    then show ?thesis
      unfolding dataproc_validate_input_params_def body using False by simp
  next
    case True
    then have i: "inv = []" by (simp only: inv_nil)
    show ?thesis
      unfolding dataproc_validate_input_params_def body sub_eq using True i by simp
  qed
qed

text \<open>
  C1: for a schema whose \<open>required\<close> and \<open>optional\<close> entries (an absent entry counts as the
  empty list) are the lists of names \<open>req\<close> and \<open>opt\<close>, and every parameter mapping \<open>P\<close>, the
  validation result is \<open>success\<close> if and only if every key of \<open>P\<close> is in \<open>req \<union> opt\<close> and every
  name of \<open>req\<close> is a key of \<open>P\<close>, and \<open>failed\<close> otherwise; for the dataflow copy and for the
  dataproc copy of the validator.
\<close>

theorem validate_input_params_success_iff:
  assumes "dict_get S ''required'' (JArr []) = Inr (JArr (map JStr req))"
    and "dict_get S ''optional'' (JArr []) = Inr (JArr (map JStr opt))"
  shows "map_of (validate_input_params S (JObj P)) ''validation_result'' =
           Some (Str (if set (map fst P) \<subseteq> set req \<union> set opt \<and> set req \<subseteq> set (map fst P)
                      then ''success'' else ''failed''))
       \<and> map_of (dataproc_validate_input_params S (JObj P)) ''validation_result'' =
           Some (Str (if set (map fst P) \<subseteq> set req \<union> set opt \<and> set req \<subseteq> set (map fst P)
                      then ''success'' else ''failed''))"
  unfolding validate_input_params_wellshaped[OF assms]
    dataproc_validate_input_params_wellshaped[OF assms]
  by simp

text \<open>
  C1 at the schema \<open>{required: [a, b], optional: [c]}\<close>: \<open>{a: 1, b: 2}\<close> passes, \<open>{a: 1}\<close> fails.
\<close>

theorem validate_input_params_success_iff_witness:
  "map_of (validate_input_params
      (JObj [(''required'', JArr [JStr ''a'', JStr ''b'']), (''optional'', JArr [JStr ''c''])])
      (JObj [(''a'', JInt 1), (''b'', JInt 2)])) ''validation_result'' = Some (Str ''success'')
   \<and> map_of (dataproc_validate_input_params
      (JObj [(''required'', JArr [JStr ''a'', JStr ''b'']), (''optional'', JArr [JStr ''c''])])
      (JObj [(''a'', JInt 1)])) ''validation_result'' = Some (Str ''failed'')"
  using validate_input_params_success_iff[of
      "JObj [(''required'', JArr [JStr ''a'', JStr ''b'']), (''optional'', JArr [JStr ''c''])]"
      "[''a'', ''b'']" "[''c'']" "[(''a'', JInt 1), (''b'', JInt 2)]"]
    validate_input_params_success_iff[of
      "JObj [(''required'', JArr [JStr ''a'', JStr ''b'']), (''optional'', JArr [JStr ''c''])]"
      "[''a'', ''b'']" "[''c'']" "[(''a'', JInt 1)]"]
  by (simp add: dict_get_def)

text \<open>
  C2, as stated, fails for the dataproc copy: its failure for an invalid key is the fixed message
  \<open>Invalid param passed\<close>, the same for the offending name \<open>d\<close> and for the offending name
  \<open>e\<close>; it reports neither the offending names nor the legal names.
\<close>

theorem dataproc_validator_reports_no_names:
  "dataproc_validate_input_params
      (JObj [(''required'', JArr [JStr ''a'', JStr ''b'']), (''optional'', JArr [JStr ''c''])])
      (JObj [(''a'', JInt 1), (''d'', JInt 9)])
     = [(''validation_result'', Str ''failed''), (''comment'', Str ''Invalid param passed'')]
   \<and> dataproc_validate_input_params
      (JObj [(''required'', JArr [JStr ''a'', JStr ''b'']), (''optional'', JArr [JStr ''c''])])
      (JObj [(''a'', JInt 1), (''e'', JInt 9)])
     = [(''validation_result'', Str ''failed''), (''comment'', Str ''Invalid param passed'')]"
  by (simp add: dataproc_validate_input_params_def dataproc_validate_input_params_body_def
      dict_get_def dict_keys_def py_set_def hashable_def)

text \<open>
  C2, amended: both copies check in the same short-circuiting order. If \<open>P\<close> has a key outside
  \<open>req \<union> opt\<close>, the failure is the invalid-parameter one, also when required names are missing:
  the dataflow copy reports the offending names and the whole list of legal names, the dataproc
  copy the fixed message \<open>Invalid param passed\<close>. The missing-required failure is returned only
  when no key is invalid: the dataflow copy reports the missing names, the dataproc copy the
  fixed message \<open>Missing required params\<close>.
\<close>

theorem validators_check_order:
  assumes "dict_get S ''required'' (JArr []) = Inr (JArr (map JStr req))"
    and "dict_get S ''optional'' (JArr []) = Inr (JArr (map JStr opt))"
  shows "(\<not> set (map fst P) \<subseteq> set req \<union> set opt \<longrightarrow>
            validate_input_params S (JObj P) =
              [(''validation_result'', Str ''failed''),
               (''comment'', InvalidParams (set (map fst P) - (set req \<union> set opt))
                               (JArr (map JStr (req @ opt))))]
          \<and> dataproc_validate_input_params S (JObj P) =
              [(''validation_result'', Str ''failed''), (''comment'', Str ''Invalid param passed'')])
       \<and> (set (map fst P) \<subseteq> set req \<union> set opt \<and> \<not> set req \<subseteq> set (map fst P) \<longrightarrow>
            validate_input_params S (JObj P) =
              [(''validation_result'', Str ''failed''),
               (''comment'', MissingRequired (JStr ` (set req - set (map fst P))))]
          \<and> dataproc_validate_input_params S (JObj P) =
              [(''validation_result'', Str ''failed''), (''comment'', Str ''Missing required params'')])"
  unfolding validate_input_params_wellshaped[OF assms]
    dataproc_validate_input_params_wellshaped[OF assms]
  by simp

text \<open>
  C2 at the schema \<open>{required: [a, b], optional: [c]}\<close>: for \<open>{a: 1, d: 9}\<close>, where \<open>d\<close> is invalid
  and \<open>b\<close> is missing, the dataflow copy reports the invalid name \<open>d\<close>; for \<open>{a: 1}\<close> it
  reports the missing name \<open>b\<close>.
\<close>

theorem validators_check_order_witness:
  "validate_input_params
      (JObj [(''required'', JArr [JStr ''a'', JStr ''b'']), (''optional'', JArr [JStr ''c''])])
      (JObj [(''a'', JInt 1), (''d'', JInt 9)])
     = [(''validation_result'', Str ''failed''),
        (''comment'', InvalidParams {''d''} (JArr [JStr ''a'', JStr ''b'', JStr ''c'']))]
   \<and> validate_input_params
      (JObj [(''required'', JArr [JStr ''a'', JStr ''b'']), (''optional'', JArr [JStr ''c''])])
      (JObj [(''a'', JInt 1)])
     = [(''validation_result'', Str ''failed''), (''comment'', MissingRequired {JStr ''b''})]"
  using validators_check_order[of
      "JObj [(''required'', JArr [JStr ''a'', JStr ''b'']), (''optional'', JArr [JStr ''c''])]"
      "[''a'', ''b'']" "[''c'']" "[(''a'', JInt 1), (''d'', JInt 9)]"]
    validators_check_order[of
      "JObj [(''required'', JArr [JStr ''a'', JStr ''b'']), (''optional'', JArr [JStr ''c''])]"
      "[''a'', ''b'']" "[''c'']" "[(''a'', JInt 1)]"]
  by (simp add: dict_get_def insert_Diff_if)

section \<open>Properties of the template submission\<close>

lemma submit_parsed:
  assumes "json_loads env input_params = Some u" and "json_loads env template_params = Some t"
  shows "submit_dataflow_template env job_name input_params template_params gcp_project region
           gcs_staging_location custom_gcs_path =
         (case unwrap_template_definition t of
            Inl failed \<Rightarrow> (failed, [])
          | Inr d \<Rightarrow> except_exception (submit_unwrapped env job_name u d gcp_project region
                       gcs_staging_location custom_gcs_path))"
  unfolding submit_dataflow_template_def
  by (simp add: assms except_exception_def split: sum.splits)

lemma submit_unparsed_input:
  assumes "json_loads env input_params = None"
  shows "submit_dataflow_template env job_name input_params template_params gcp_project region
           gcs_staging_location custom_gcs_path =
         ([(''status'', Str ''failed''), (''comment'', SubmitUnexpected JSONDecodeError)], [])"
  unfolding submit_dataflow_template_def
  by (simp add: assms except_exception_def)

lemma unwrap_object: "unwrap_template_definition (JObj kvs) = Inr (JObj kvs)"
  by (simp add: unwrap_template_definition_def)

lemma unwrap_cons: "unwrap_template_definition (JArr (x # xs)) =
    (if is_object x then Inr x
     else Inl [(''status'', Str ''failed''),
               (''comment'', Str ''Job could not be submitted because the processed template definition is not a valid dictionary (JSON object).'')])"
  by (simp add: unwrap_template_definition_def is_object_def split: json.splits)

lemma unwrap_not_object:
  "t \<noteq> JArr [] \<Longrightarrow> \<not> is_object (first_or_self t) \<Longrightarrow>
   unwrap_template_definition t =
     Inl [(''status'', Str ''failed''),
          (''comment'', Str ''Job could not be submitted because the processed template definition is not a valid dictionary (JSON object).'')]"
  by (auto simp: unwrap_template_definition_def is_object_def first_or_self_def
      split: json.splits list.splits)

lemma unwrap_empty:
  "unwrap_template_definition (JArr []) =
     Inl [(''status'', Str ''failed''),
          (''comment'', Str ''Job could not be submitted because the template definition was an empty list.'')]"
  by (simp add: unwrap_template_definition_def)

lemma submit_unwrap_failed:
  assumes "json_loads env template_params = Some t" and "unwrap_template_definition t = Inl f"
    and "map_of f ''status'' = Some (Str ''failed'')"
  shows "map_of (fst (submit_dataflow_template env job_name input_params template_params
            gcp_project region gcs_staging_location custom_gcs_path)) ''status''
           = Some (Str ''failed'')
       \<and> snd (submit_dataflow_template env job_name input_params template_params
            gcp_project region gcs_staging_location custom_gcs_path) = []
       \<and> (json_loads env input_params \<noteq> None \<longrightarrow>
            fst (submit_dataflow_template env job_name input_params template_params
              gcp_project region gcs_staging_location custom_gcs_path) = f)"
proof (cases "json_loads env input_params")
  case None
  then show ?thesis by (simp add: submit_unparsed_input)
next
  case (Some u)
  then show ?thesis using assms by (simp add: submit_parsed)
qed

lemmas example_eval =
  example_env_def example_loads_def example_template_def classic_template_def
  submit_dataflow_template_def except_exception_def submit_unwrapped_def
  unwrap_template_definition_def resolve_template_gcs_path_def get_or_none_def dict_get_def
  truthy_def check_parameters_def validate_input_params_def validate_input_params_body_def
  dict_keys_def dict_items_def py_set_def hashable_def py_in_def
  encode_parameters_def render_def flex_command_def classic_command_def

lemma example_flex_run:
  "submit_dataflow_template example_env ''job'' ''P'' ''T'' ''proj'' ''us'' ''gs://stg'' [] =
     ([(''status'', Str ''success''), (''stdout'', Str ''started''),
       (''comment'', Str ''Job Submitted Successfully'')],
      [''gcloud dataflow flex-template run job --project=proj --region=us --template-file-gcs-location=gs://templates/flex/Job --parameters \"^~^a=1,2\" --additional-user-labels=source=plumber''])"
  by (simp add: example_eval)

lemma example_classic_run:
  "submit_dataflow_template example_env ''job'' ''P'' ''C'' ''proj'' ''us'' ''gs://stg'' [] =
     ([(''status'', Str ''success''), (''stdout'', Str ''started''),
       (''comment'', Str ''Job Submitted Successfully'')],
      [''gcloud dataflow jobs run job --project=proj --region=us --gcs-location=gs://templates/latest/Job --parameters \"^~^a=1,2\" --staging-location=gs://stg --additional-user-labels=source=plumber''])"
  by (simp add: example_eval)

lemma is_substring_prefix: "is_substring n (n @ b)"
proof (cases "n @ b")
  case Nil
  then show ?thesis by simp
next
  case (Cons c s)
  have "take (length n) (n @ b) = n" by simp
  then have "take (length n) (c # s) = n" unfolding Cons .
  then show ?thesis unfolding Cons by simp
qed

lemma is_substring_append: "is_substring n (a @ n @ b)"
proof (induction a)
  case Nil
  show ?case using is_substring_prefix[of n b] by simp
next
  case (Cons c a)
  then show ?case by simp
qed

lemma flex_classic_distinct:
  "flex_command j p r g s \<noteq> classic_command j' p' r' g' s' l'"
  by (simp add: flex_command_def classic_command_def)

lemma classic_has_staging_flag:
  "is_substring (''--staging-location='' @ st) (classic_command j p r g s st)"
proof -
  have "classic_command j p r g s st =
      (''gcloud dataflow jobs run '' @ j @ '' --project='' @ p @ '' --region='' @ r
        @ '' --gcs-location='' @ g @ '' --parameters \"'' @ s @ ''\" '')
      @ (''--staging-location='' @ st) @ '' --additional-user-labels=source=plumber''"
    by (simp add: classic_command_def)
  then show ?thesis by (simp only: is_substring_append)
qed

text \<open>
  C5: for every submission that runs a command, with the template definition \<open>d\<close> (after
  unwrapping) and the resolved artifact path the string \<open>p\<close>: the command is the flex-template
  command, which has no staging location, exactly when \<open>p\<close> contains \<open>/flex/\<close> or the \<open>type\<close> of
  \<open>d\<close> equals \<open>FLEX\<close>; otherwise it is the classic command, which contains the flag
  \<open>--staging-location=\<close> with the staging location. The two shapes are never the same string.
\<close>

theorem submit_command_shape:
  assumes "json_loads env ip = Some (JObj items)"
    and "json_loads env tp = Some t"
    and "unwrap_template_definition t = Inr d"
    and "resolve_template_gcs_path cu d = JStr p"
    and "snd (submit_dataflow_template env job ip tp pr rg st cu) \<noteq> []"
  shows "snd (submit_dataflow_template env job ip tp pr rg st cu) =
      [if is_substring ''/flex/'' p \<or> get_or_none d ''type'' = JStr ''FLEX''
       then flex_command job pr rg p (encode_parameters env items)
       else classic_command job pr rg p (encode_parameters env items) st]
    \<and> flex_command job pr rg p (encode_parameters env items)
        \<noteq> classic_command job pr rg p (encode_parameters env items) st
    \<and> is_substring (''--staging-location='' @ st)
        (classic_command job pr rg p (encode_parameters env items) st)"
proof -
  have s: "submit_dataflow_template env job ip tp pr rg st cu =
      except_exception (submit_unwrapped env job (JObj items) d pr rg st cu)"
    using assms(1-3) by (simp add: submit_parsed)
  have "snd (except_exception (submit_unwrapped env job (JObj items) d pr rg st cu)) =
      [if is_substring ''/flex/'' p \<or> get_or_none d ''type'' = JStr ''FLEX''
       then flex_command job pr rg p (encode_parameters env items)
       else classic_command job pr rg p (encode_parameters env items) st]"
    using assms(5) unfolding s
    by (auto simp: submit_unwrapped_def except_exception_def assms(4) Let_def dict_items_def
        py_in_def render_def split: if_splits option.splits sum.splits prod.splits)
  then show ?thesis
    unfolding s using flex_classic_distinct classic_has_staging_flag by simp
qed

lemma unwrap_cons_nonlist:
  "\<forall>ys. x \<noteq> JArr ys \<Longrightarrow>
   unwrap_template_definition (JArr (x # rest)) = unwrap_template_definition x"
  by (cases x) (simp_all add: unwrap_template_definition_def)

lemma submit_same_unwrap:
  assumes "json_loads env tp = Some t" and "json_loads env tp' = Some t'"
    and "unwrap_template_definition t = unwrap_template_definition t'"
  shows "submit_dataflow_template env job ip tp pr rg st cu =
         submit_dataflow_template env job ip tp' pr rg st cu"
proof (cases "json_loads env ip")
  case None
  then show ?thesis by (simp add: submit_unparsed_input)
next
  case (Some u)
  then show ?thesis using assms by (simp add: submit_parsed)
qed

text \<open>
  C10, as stated, fails when the first element of the list is itself a list: \<open>N\<close> parses to
  \<open>[[template]]\<close> and \<open>F\<close> to its first element \<open>[template]\<close>. The submission of \<open>N\<close> fails (the
  first element is not an object, and a list is unwrapped once only), but the submission of the
  first element alone is unwrapped and succeeds.
\<close>

theorem nested_list_not_unwrapped_twice:
  "json_loads example_env ''N'' = Some (JArr [JArr [example_template]])
   \<and> json_loads example_env ''F'' = Some (JArr [example_template])
   \<and> submit_dataflow_template example_env ''job'' ''P'' ''N'' ''proj'' ''us'' ''gs://stg'' [] =
       ([(''status'', Str ''failed''),
         (''comment'', Str ''Job could not be submitted because the processed template definition is not a valid dictionary (JSON object).'')], [])
   \<and> submit_dataflow_template example_env ''job'' ''P'' ''F'' ''proj'' ''us'' ''gs://stg'' [] =
       submit_dataflow_template example_env ''job'' ''P'' ''T'' ''proj'' ''us'' ''gs://stg'' []
   \<and> map_of (fst (submit_dataflow_template example_env ''job'' ''P'' ''F'' ''proj'' ''us''
         ''gs://stg'' [])) ''status'' = Some (Str ''success'')"
  by (simp add: example_eval)

text \<open>
  C10, amended: when \<open>template_params\<close> parses to a non-empty list whose first element is not
  itself a list, the submission returns what it returns for that element alone; the elements
  after the first never affect the result; when it parses to the empty list, or the unwrapped value (the
  first element of a non-empty list, or the value itself) is not a JSON object, the result has
  status \<open>failed\<close> and no command is run, and the result is the corresponding fixed message
  whenever \<open>input_params\<close> parses.
\<close>

theorem template_list_unwrapping:
  "(json_loads env tp = Some (JArr (x # rest)) \<and> json_loads env tp' = Some x
      \<and> (\<forall>ys. x \<noteq> JArr ys) \<longrightarrow>
      submit_dataflow_template env job ip tp pr rg st cu =
      submit_dataflow_template env job ip tp' pr rg st cu)
   \<and> (json_loads env tp = Some (JArr (x # rest)) \<and> json_loads env tp' = Some (JArr (x # rest')) \<longrightarrow>
      submit_dataflow_template env job ip tp pr rg st cu =
      submit_dataflow_template env job ip tp' pr rg st cu)
   \<and> (json_loads env tp = Some t \<and> (t = JArr [] \<or> \<not> is_object (first_or_self t)) \<longrightarrow>
      map_of (fst (submit_dataflow_template env job ip tp pr rg st cu)) ''status''
        = Some (Str ''failed'')
      \<and> snd (submit_dataflow_template env job ip tp pr rg st cu) = []
      \<and> (json_loads env ip \<noteq> None \<longrightarrow>
           fst (submit_dataflow_template env job ip tp pr rg st cu) =
             [(''status'', Str ''failed''),
              (''comment'', Str (if t = JArr []
                 then ''Job could not be submitted because the template definition was an empty list.''
                 else ''Job could not be submitted because the processed template definition is not a valid dictionary (JSON object).''))]))"
proof (intro conjI impI)
  assume a: "json_loads env tp = Some (JArr (x # rest)) \<and> json_loads env tp' = Some x
      \<and> (\<forall>ys. x \<noteq> JArr ys)"
  then have "unwrap_template_definition (JArr (x # rest)) = unwrap_template_definition x"
    by (simp add: unwrap_cons_nonlist)
  then show "submit_dataflow_template env job ip tp pr rg st cu =
        submit_dataflow_template env job ip tp' pr rg st cu"
    using a submit_same_unwrap by blast
next
  assume a: "json_loads env tp = Some (JArr (x # rest)) \<and> json_loads env tp' = Some (JArr (x # rest'))"
  have "unwrap_template_definition (JArr (x # rest)) = unwrap_template_definition (JArr (x # rest'))"
    by (simp add: unwrap_cons)
  then show "submit_dataflow_template env job ip tp pr rg st cu =
        submit_dataflow_template env job ip tp' pr rg st cu"
    using a submit_same_unwrap by blast
next
  assume a: "json_loads env tp = Some t \<and> (t = JArr [] \<or> \<not> is_object (first_or_self t))"
  define f where "f = [(''status'', Str ''failed''),
              (''comment'', Str (if t = JArr []
                 then ''Job could not be submitted because the template definition was an empty list.''
                 else ''Job could not be submitted because the processed template definition is not a valid dictionary (JSON object).''))]"
  have u: "unwrap_template_definition t = Inl f"
  proof (cases "t = JArr []")
    case True
    then show ?thesis by (simp add: f_def unwrap_empty)
  next
    case False
    then show ?thesis using a by (simp add: f_def unwrap_not_object)
  qed
  have s: "map_of f ''status'' = Some (Str ''failed'')" by (simp add: f_def)
  from a have l: "json_loads env tp = Some t" by simp
  note r = submit_unwrap_failed[OF l u s, of job ip pr rg st cu]
  from r show "map_of (fst (submit_dataflow_template env job ip tp pr rg st cu)) ''status''
        = Some (Str ''failed'')" by simp
  from r show "snd (submit_dataflow_template env job ip tp pr rg st cu) = []" by simp
  assume "json_loads env ip \<noteq> None"
  with r show "fst (submit_dataflow_template env job ip tp pr rg st cu) =
             [(''status'', Str ''failed''),
              (''comment'', Str (if t = JArr []
                 then ''Job could not be submitted because the template definition was an empty list.''
                 else ''Job could not be submitted because the processed template definition is not a valid dictionary (JSON object).''))]"
    unfolding f_def by simp
qed

text \<open>
  C10 in the concrete environment: \<open>L\<close> (the template followed by \<open>null\<close>) is submitted as \<open>T\<close>
  (the template) and as \<open>F\<close> (the list of the template alone) are; \<open>E\<close> (the empty list) fails.
\<close>

theorem template_list_unwrapping_witness:
  "submit_dataflow_template example_env ''job'' ''P'' ''L'' ''proj'' ''us'' ''gs://stg'' [] =
   submit_dataflow_template example_env ''job'' ''P'' ''T'' ''proj'' ''us'' ''gs://stg'' []
   \<and> submit_dataflow_template example_env ''job'' ''P'' ''L'' ''proj'' ''us'' ''gs://stg'' [] =
     submit_dataflow_template example_env ''job'' ''P'' ''F'' ''proj'' ''us'' ''gs://stg'' []
   \<and> submit_dataflow_template example_env ''job'' ''P'' ''E'' ''proj'' ''us'' ''gs://stg'' [] =
     ([(''status'', Str ''failed''),
       (''comment'', Str ''Job could not be submitted because the template definition was an empty list.'')], [])"
proof -
  have l: "json_loads example_env ''L'' = Some (JArr [example_template, JNull])"
    "json_loads example_env ''T'' = Some example_template"
    "json_loads example_env ''F'' = Some (JArr [example_template])"
    "json_loads example_env ''E'' = Some (JArr [])"
    "json_loads example_env ''P'' \<noteq> None"
    by (simp_all add: example_env_def example_loads_def)
  have nl: "\<forall>ys. example_template \<noteq> JArr ys" by (simp add: example_template_def)
  note t = template_list_unwrapping[where env = example_env and job = "''job''" and ip = "''P''"
      and pr = "''proj''" and rg = "''us''" and st = "''gs://stg''" and cu = "[]"]
  have "submit_dataflow_template example_env ''job'' ''P'' ''L'' ''proj'' ''us'' ''gs://stg'' [] =
   submit_dataflow_template example_env ''job'' ''P'' ''T'' ''proj'' ''us'' ''gs://stg'' []"
    using t[where tp = "''L''" and tp' = "''T''" and x = example_template and rest = "[JNull]",
        THEN conjunct1] l(1,2) nl by blast
  moreover have "submit_dataflow_template example_env ''job'' ''P'' ''L'' ''proj'' ''us'' ''gs://stg'' [] =
     submit_dataflow_template example_env ''job'' ''P'' ''F'' ''proj'' ''us'' ''gs://stg'' []"
    using t[where tp = "''L''" and tp' = "''F''" and x = example_template and rest = "[JNull]"
        and rest' = "[]", THEN conjunct2, THEN conjunct1] l(1,3) by blast
  moreover have "submit_dataflow_template example_env ''job'' ''P'' ''E'' ''proj'' ''us'' ''gs://stg'' [] =
     ([(''status'', Str ''failed''),
       (''comment'', Str ''Job could not be submitted because the template definition was an empty list.'')], [])"
    using t[where tp = "''E''" and t = "JArr []"] l by (simp add: prod_eq_iff)
  ultimately show ?thesis by simp
qed

text \<open>
  C5 in the concrete environment: the flex template gives a flex-template command, the classic
  template a command with the staging location.
\<close>

theorem submit_command_shape_witness:
  "snd (submit_dataflow_template example_env ''job'' ''P'' ''T'' ''proj'' ''us'' ''gs://stg'' []) =
     [''gcloud dataflow flex-template run job --project=proj --region=us --template-file-gcs-location=gs://templates/flex/Job --parameters \"^~^a=1,2\" --additional-user-labels=source=plumber'']
   \<and> snd (submit_dataflow_template example_env ''job'' ''P'' ''C'' ''proj'' ''us'' ''gs://stg'' []) =
     [''gcloud dataflow jobs run job --project=proj --region=us --gcs-location=gs://templates/latest/Job --parameters \"^~^a=1,2\" --staging-location=gs://stg --additional-user-labels=source=plumber'']"
proof -
  have p: "json_loads example_env ''P'' = Some (JObj [(''a'', JStr ''1,2'')])"
    by (simp add: example_env_def example_loads_def)
  have t: "json_loads example_env ''T'' = Some example_template"
    and c: "json_loads example_env ''C'' = Some classic_template"
    by (simp_all add: example_env_def example_loads_def)
  have ut: "unwrap_template_definition example_template = Inr example_template"
    and uc: "unwrap_template_definition classic_template = Inr classic_template"
    by (simp_all add: example_template_def classic_template_def unwrap_object)
  have rt: "resolve_template_gcs_path [] example_template = JStr ''gs://templates/flex/Job''"
    and rc: "resolve_template_gcs_path [] classic_template = JStr ''gs://templates/latest/Job''"
    by (simp_all add: resolve_template_gcs_path_def get_or_none_def dict_get_def
        example_template_def classic_template_def)
  have nt: "snd (submit_dataflow_template example_env ''job'' ''P'' ''T'' ''proj'' ''us'' ''gs://stg'' []) \<noteq> []"
    by (simp add: example_flex_run)
  have nc: "snd (submit_dataflow_template example_env ''job'' ''P'' ''C'' ''proj'' ''us'' ''gs://stg'' []) \<noteq> []"
    by (simp add: example_classic_run)
  show ?thesis
    using submit_command_shape[OF p t ut rt nt] submit_command_shape[OF p c uc rc nc]
    by (simp add: flex_command_def classic_command_def encode_parameters_def render_def
        get_or_none_def dict_get_def example_template_def classic_template_def)
qed

lemma split_on_no_delim: "d \<notin> set w \<Longrightarrow> split_on d w = [w]"
  by (induction w) auto

lemma split_on_append: "d \<notin> set w \<Longrightarrow> split_on d (w @ d # rest) = w # split_on d rest"
  by (induction w) auto

lemma split_on_join:
  "ws \<noteq> [] \<Longrightarrow> \<forall>w \<in> set ws. d \<notin> set w \<Longrightarrow> split_on d (py_join [d] ws) = ws"
proof (induction "[d]" ws rule: py_join.induct)
  case 1
  then show ?case by simp
next
  case (2 x)
  then show ?case by (simp add: split_on_no_delim)
next
  case (3 x y xs)
  then show ?case by (simp add: split_on_append)
qed

lemma flex_command_parameters:
  "\<exists>pre post. flex_command j p r g s = pre @ '' --parameters \"'' @ s @ ''\"'' @ post"
proof -
  have "flex_command j p r g s =
      (''gcloud dataflow flex-template run '' @ j @ '' --project='' @ p @ '' --region='' @ r
        @ '' --template-file-gcs-location='' @ g)
      @ '' --parameters \"'' @ s @ ''\"'' @ '' --additional-user-labels=source=plumber''"
    by (simp add: flex_command_def)
  then show ?thesis by blast
qed

lemma classic_command_parameters:
  "\<exists>pre post. classic_command j p r g s l = pre @ '' --parameters \"'' @ s @ ''\"'' @ post"
proof -
  have "classic_command j p r g s l =
      (''gcloud dataflow jobs run '' @ j @ '' --project='' @ p @ '' --region='' @ r
        @ '' --gcs-location='' @ g)
      @ '' --parameters \"'' @ s @ ''\"''
      @ ('' --staging-location='' @ l @ '' --additional-user-labels=source=plumber'')"
    by (simp add: classic_command_def)
  then show ?thesis by blast
qed

lemma submit_command_cases:
  assumes "json_loads env ip = Some (JObj items)"
    and "snd (submit_dataflow_template env job ip tp pr rg st cu) = [cmd]"
  shows "(\<exists>g. cmd = flex_command job pr rg g (encode_parameters env items))
       \<or> (\<exists>g. cmd = classic_command job pr rg g (encode_parameters env items) st)"
  using assms
  unfolding submit_dataflow_template_def submit_unwrapped_def except_exception_def
  by (auto simp: Let_def dict_items_def
      split: option.splits sum.splits if_splits prod.splits)

text \<open>
  The code does not escape the encoded string when it puts it between double quotes in the
  command line: a double quote inside a value ends the quoted argument.
\<close>

lemma unescaped_value_in_command:
  "classic_command ''job'' ''proj'' ''us'' ''gs://t''
     (encode_parameters example_env [(''a'', JStr ''x\" --staging-location=\"gs://other'')])
     ''gs://stg'' =
   ''gcloud dataflow jobs run job --project=proj --region=us --gcs-location=gs://t --parameters \"^~^a=x\" --staging-location=\"gs://other\" --staging-location=gs://stg --additional-user-labels=source=plumber''"
  by (simp add: classic_command_def encode_parameters_def render_def)

text \<open>
  C7, amended: the encoded parameter string is \<open>^~^\<close> followed by the \<open>key=value\<close> pairs joined
  by the fixed delimiter \<open>~\<close> (for the empty mapping it is the prefix \<open>^~^\<close> alone), and every
  submission that runs a command puts this string, as it is, between double quotes after
  \<open>--parameters\<close>. The delimiter is a constant; it is not chosen from the values. For a
  non-empty mapping in which no key and no value contains \<open>~\<close>, splitting the text after the
  prefix at \<open>~\<close> gives back exactly the \<open>key=value\<close> pairs: a comma, or any character other than
  \<open>~\<close>, inside a value does not move the places where the pairs are separated. Nothing is
  stated about how the shell or the platform reads the quoted string.
\<close>

theorem encode_parameters_pairs:
  "encode_parameters env items =
     ''^~^'' @ py_join ''~'' (map (\<lambda>(k, v). k @ ''='' @ render env v) items)
   \<and> encode_parameters env [] = ''^~^''
   \<and> (items \<noteq> []
        \<and> (\<forall>(k, v) \<in> set items. CHR ''~'' \<notin> set k \<and> CHR ''~'' \<notin> set (render env v)) \<longrightarrow>
        split_on CHR ''~'' (drop 3 (encode_parameters env items)) =
          map (\<lambda>(k, v). k @ ''='' @ render env v) items)
   \<and> (json_loads env ip = Some (JObj items)
        \<and> snd (submit_dataflow_template env job ip tp pr rg st cu) = [cmd] \<longrightarrow>
        (\<exists>pre post. cmd = pre @ '' --parameters \"'' @ encode_parameters env items @ ''\"'' @ post))"
proof (intro conjI impI)
  let ?ws = "map (\<lambda>(k, v). k @ ''='' @ render env v) items"
  show e: "encode_parameters env items = ''^~^'' @ py_join ''~'' ?ws"
    by (simp add: encode_parameters_def)
  show "encode_parameters env [] = ''^~^''"
    by (simp add: encode_parameters_def)
  {
    assume a: "items \<noteq> []
        \<and> (\<forall>(k, v) \<in> set items. CHR ''~'' \<notin> set k \<and> CHR ''~'' \<notin> set (render env v))"
    then have "?ws \<noteq> []" by simp
    moreover have "\<forall>w \<in> set ?ws. CHR ''~'' \<notin> set w" using a by auto
    ultimately have "split_on CHR ''~'' (py_join ''~'' ?ws) = ?ws" by (rule split_on_join)
    then show "split_on CHR ''~'' (drop 3 (encode_parameters env items)) = ?ws"
      unfolding e by simp
  }
  {
    assume "json_loads env ip = Some (JObj items)
        \<and> snd (submit_dataflow_template env job ip tp pr rg st cu) = [cmd]"
    then have "(\<exists>g. cmd = flex_command job pr rg g (encode_parameters env items))
       \<or> (\<exists>g. cmd = classic_command job pr rg g (encode_parameters env items) st)"
      using submit_command_cases by blast
    then show "\<exists>pre post. cmd = pre @ '' --parameters \"'' @ encode_parameters env items @ ''\"'' @ post"
      using flex_command_parameters classic_command_parameters by metis
  }
qed

text \<open>
  C7 at concrete inputs: the mapping \<open>{a: "1,2", b: "z"}\<close>, whose first value holds a comma,
  splits back into its two pairs; the submission of \<open>{a: "1,2"}\<close> in the concrete environment
  runs a command that holds the encoded string between double quotes after \<open>--parameters\<close>.
\<close>

theorem encode_parameters_pairs_witness:
  "split_on CHR ''~''
     (drop 3 (encode_parameters example_env [(''a'', JStr ''1,2''), (''b'', JStr ''z'')]))
     = [''a=1,2'', ''b=z'']
   \<and> (\<exists>pre post.
        snd (submit_dataflow_template example_env ''job'' ''P'' ''T'' ''proj'' ''us'' ''gs://stg'' [])
          = [pre @ '' --parameters \"^~^a=1,2\"'' @ post])"
proof -
  have f: "[(''a'', JStr ''1,2''), (''b'', JStr ''z'')] \<noteq> []
      \<and> (\<forall>(k, v) \<in> set [(''a'', JStr ''1,2''), (''b'', JStr ''z'')].
            CHR ''~'' \<notin> set k \<and> CHR ''~'' \<notin> set (render example_env v))"
    by (simp add: render_def)
  from encode_parameters_pairs[THEN conjunct2, THEN conjunct2, THEN conjunct1, rule_format, OF f]
  have 1: "split_on CHR ''~''
     (drop 3 (encode_parameters example_env [(''a'', JStr ''1,2''), (''b'', JStr ''z'')]))
     = [''a=1,2'', ''b=z'']"
    by (simp add: render_def)
  have p: "json_loads example_env ''P'' = Some (JObj [(''a'', JStr ''1,2'')])"
    by (simp add: example_env_def example_loads_def)
  have c: "snd (submit_dataflow_template example_env ''job'' ''P'' ''T'' ''proj'' ''us'' ''gs://stg'' [])
      = [''gcloud dataflow flex-template run job --project=proj --region=us --template-file-gcs-location=gs://templates/flex/Job --parameters \"^~^a=1,2\" --additional-user-labels=source=plumber'']"
    by (simp only: example_flex_run snd_conv)
  have en: "encode_parameters example_env [(''a'', JStr ''1,2'')] = ''^~^a=1,2''"
    by (simp add: encode_parameters_def render_def)
  from encode_parameters_pairs[THEN conjunct2, THEN conjunct2, THEN conjunct2, rule_format,
      OF conjI, OF p c]
  obtain pre post where
    "''gcloud dataflow flex-template run job --project=proj --region=us --template-file-gcs-location=gs://templates/flex/Job --parameters \"^~^a=1,2\" --additional-user-labels=source=plumber''
      = pre @ '' --parameters \"'' @ encode_parameters example_env [(''a'', JStr ''1,2'')] @ ''\"'' @ post"
    by blast
  then have "snd (submit_dataflow_template example_env ''job'' ''P'' ''T'' ''proj'' ''us'' ''gs://stg'' [])
          = [pre @ '' --parameters \"^~^a=1,2\"'' @ post]"
    unfolding c en by simp
  then have 2: "\<exists>pre post.
        snd (submit_dataflow_template example_env ''job'' ''P'' ''T'' ''proj'' ''us'' ''gs://stg'' [])
          = [pre @ '' --parameters \"^~^a=1,2\"'' @ post]"
    by blast
  show ?thesis using 1 2 by blast
qed

text \<open>
  C7, as stated, fails: the delimiter is always \<open>~\<close>, also when a value contains it. The value
  of the validated mapping \<open>{a: "x~b=y"}\<close> contains the delimiter, and this mapping and the
  validated mapping \<open>{a: "x", b: "y"}\<close> give the same command.
\<close>

theorem delimiter_collides_with_value:
  "json_loads example_env ''P1'' = Some (JObj [(''a'', JStr ''x~b=y'')])
   \<and> json_loads example_env ''P2'' = Some (JObj [(''a'', JStr ''x''), (''b'', JStr ''y'')])
   \<and> snd (submit_dataflow_template example_env ''job'' ''P1'' ''C'' ''proj'' ''us'' ''gs://stg'' []) =
     [''gcloud dataflow jobs run job --project=proj --region=us --gcs-location=gs://templates/latest/Job --parameters \"^~^a=x~b=y\" --staging-location=gs://stg --additional-user-labels=source=plumber'']
   \<and> snd (submit_dataflow_template example_env ''job'' ''P2'' ''C'' ''proj'' ''us'' ''gs://stg'' []) =
     snd (submit_dataflow_template example_env ''job'' ''P1'' ''C'' ''proj'' ''us'' ''gs://stg'' [])
   \<and> encode_parameters example_env [(''a'', JStr ''x~b=y'')] = ''^~^a=x~b=y''
   \<and> CHR ''~'' \<in> set ''x~b=y''"
  by (simp add: example_eval)
section \<open>Properties of the custom job builder\<close>

lemma generate_valid:
  assumes "project_id \<noteq> []" "region \<noteq> []" "take 5 gcs = ''gs://''" "makedirs_error env = None"
  shows "generate_and_run_beam_pipeline env project_id region gcs job src args ptype w =
     (case try_body env project_id region gcs (sanitize_job_name (name_uuid env) job) args ptype src w of
        None \<Rightarrow> None
      | Some (t, w') \<Rightarrow> Some (Returned (handlers t), cleanup env w'))"
proof -
  have "gcs \<noteq> []" using assms(3) by auto
  then show ?thesis using assms
    by (simp add: generate_and_run_beam_pipeline_def)
qed

lemma cleanup_removes: "files (cleanup env w) (temp_filename env) = None"
  by (simp add: cleanup_def remove_file_def)

lemma cleanup_blobs: "blobs (cleanup env w) = blobs w"
  by (simp add: cleanup_def remove_file_def)

lemma watch_output_stops:
  "(case lines (i + n) of None \<Rightarrow> True | Some line \<Rightarrow> find_job_id line \<noteq> None)
   \<Longrightarrow> watch_output lines i out \<noteq> None"
proof (induction n arbitrary: i out)
  case 0
  then show ?case
    by (subst watch_output.simps) (auto split: option.splits)
next
  case (Suc n)
  have "watch_output lines (Suc i) (out @ l) \<noteq> None" for l
    using Suc.IH[of "Suc i" "out @ l"] Suc.prems by simp
  then show ?case
    by (subst watch_output.simps) (auto split: option.splits)
qed

lemma launch_batch_returns:
  "ptype \<noteq> ''streaming'' \<Longrightarrow> launch env cmd ptype w \<noteq> None"
  by (simp add: launch_def Let_def split: batch_result.splits)

lemma launch_streaming_returns:
  assumes "\<And>lines e r. streaming_process env cmd = Stream lines e r \<Longrightarrow> stops lines"
  shows "launch env cmd ''streaming'' w \<noteq> None"
proof (cases "streaming_process env cmd")
  case (StreamSpawnFailed msg)
  then show ?thesis by (simp add: launch_def)
next
  case (Stream lines e r)
  then have "stops lines" by (rule assms)
  then obtain n where "case lines (0 + n) of None \<Rightarrow> True | Some line \<Rightarrow> find_job_id line \<noteq> None"
    unfolding stops_def by auto
  then have "watch_output lines 0 [] \<noteq> None" by (rule watch_output_stops)
  then show ?thesis using Stream by (auto simp: launch_def split: prod.splits)
qed

lemma try_body_returns:
  "launch env (build_command env (full_args project_id region gcs name args)) ptype
      (put_file (temp_filename env) src w) \<noteq> None
   \<Longrightarrow> try_body env project_id region gcs name args ptype src w \<noteq> None"
  by (auto simp: try_body_def Let_def split: write_result.splits tried.splits prod.splits option.splits)

lemma final_report_fields:
  "map_of (final_report name job_id output archived) ''status'' =
     Some (Str (case archived of Inr _ \<Rightarrow> ''success'' | Inl _ \<Rightarrow> ''success_with_warning''))"
  "map_of (final_report name job_id output archived) ''job_id'' = Some (Str job_id)"
  "map_of (final_report name job_id output archived) ''gcs_script_path'' =
     Some (case archived of Inr gcs_path \<Rightarrow> Str gcs_path | Inl _ \<Rightarrow> PyNone)"
  by (simp_all add: final_report_def Let_def)

lemma py_join_snoc: "xs \<noteq> [] \<Longrightarrow> py_join sep (xs @ [x]) = py_join sep xs @ sep @ x"
  by (induction sep xs rule: py_join.induct) auto

lemma final_report_last_line:
  "\<exists>pre. map_of (final_report name job_id output archived) ''report'' =
     Some (Str (pre @ (case archived of
        Inr gcs_path \<Rightarrow> ''The pipeline script was saved to '' @ gcs_path
      | Inl gcs_error \<Rightarrow> ''WARNING: Failed to save the script to GCS. Error: '' @ gcs_error)))"
proof -
  define front where "front =
    [''Successfully launched Dataflow job '' @ [CHR 0x27] @ name @ [CHR 0x27] @ ''.'',
     ''Job Details:'']
    @ map (\<lambda>(key, val). ''  '' @ key @ '': '' @ val) (job_details name job_id output)"
  define lastl where "lastl = (case archived of
        Inr gcs_path \<Rightarrow> ''The pipeline script was saved to '' @ gcs_path
      | Inl gcs_error \<Rightarrow> ''WARNING: Failed to save the script to GCS. Error: '' @ gcs_error)"
  have ne: "front \<noteq> []" by (simp add: front_def)
  have "map_of (final_report name job_id output archived) ''report'' =
      Some (Str (py_join newline (front @ [newline @ lastl])))"
    by (simp add: final_report_def Let_def front_def lastl_def split: sum.splits)
  also have "py_join newline (front @ [newline @ lastl]) =
      (py_join newline front @ newline @ newline) @ lastl"
    using ne by (simp add: py_join_snoc)
  finally show ?thesis unfolding lastl_def by blast
qed

lemma not_error_launched:
  assumes "generate_and_run_beam_pipeline env project_id region gcs job src args ptype w
             = Some (Returned r, w')"
    and "map_of r ''status'' \<noteq> Some (Str ''error'')"
  shows "\<exists>output job_id w2.
           launched_with_id env project_id region gcs job src args ptype w output job_id w2
           \<and> map_of r ''job_id'' = Some (Str job_id)"
  using assms
  unfolding generate_and_run_beam_pipeline_def launched_with_id_def try_body_def handlers_def
  by (auto simp: Let_def final_report_fields
      split: if_splits option.splits write_result.splits tried.splits prod.splits)

lemma launched_result:
  assumes "launched_with_id env project_id region gcs job src args ptype w output job_id w2"
  shows "generate_and_run_beam_pipeline env project_id region gcs job src args ptype w =
     Some (Returned (final_report (sanitize_job_name (name_uuid env) job) job_id output
             (fst (archive env gcs (sanitize_job_name (name_uuid env) job) src w2))),
           cleanup env (snd (archive env gcs (sanitize_job_name (name_uuid env) job) src w2)))"
  using assms unfolding launched_with_id_def
  by (simp add: generate_valid try_body_def handlers_def Let_def split: prod.splits)

lemma generate_returns_from_launch:
  assumes "project_id \<noteq> []" "region \<noteq> []" "take 5 gcs = ''gs://''" "makedirs_error env = None"
    and "\<And>cmd w1. launch env cmd ptype w1 \<noteq> None"
  shows "generate_and_run_beam_pipeline env project_id region gcs job src args ptype w \<noteq> None"
proof -
  have "try_body env project_id region gcs (sanitize_job_name (name_uuid env) job) args ptype src w
          \<noteq> None"
    by (rule try_body_returns) (rule assms(5))
  then show ?thesis
    by (auto simp: generate_valid[OF assms(1-4)] split: prod.splits)
qed

text \<open>
  C9: for every invocation that reaches the writing of the transient file (the arguments pass
  the checks and \<open>os.makedirs\<close> does not raise), whenever the operation returns, it returns a
  result and the transient file does not exist, whatever happened in between: the write failed,
  the process could not be launched or failed, no identifier was found, the archival failed, or
  all succeeded. The operation does return in batch mode, and in streaming mode when the output
  of the process ends or one of its lines holds an identifier.
\<close>

theorem transient_file_removed:
  assumes "project_id \<noteq> []" "region \<noteq> []" "take 5 gcs = ''gs://''" "makedirs_error env = None"
  shows "(\<forall>out w'. generate_and_run_beam_pipeline env project_id region gcs job src args ptype w
              = Some (out, w')
            \<longrightarrow> (\<exists>r. out = Returned r) \<and> files w' (temp_filename env) = None)
       \<and> (ptype \<noteq> ''streaming'' \<longrightarrow>
            generate_and_run_beam_pipeline env project_id region gcs job src args ptype w \<noteq> None)
       \<and> ((\<forall>cmd lines e r. streaming_process env cmd = Stream lines e r \<longrightarrow> stops lines) \<longrightarrow>
            generate_and_run_beam_pipeline env project_id region gcs job src args ptype w \<noteq> None)"
proof (intro conjI allI impI)
  fix out w'
  assume "generate_and_run_beam_pipeline env project_id region gcs job src args ptype w
            = Some (out, w')"
  then have "\<exists>t w1. out = Returned (handlers t) \<and> w' = cleanup env w1"
    by (auto simp: generate_valid[OF assms] split: option.splits prod.splits)
  then show "\<exists>r. out = Returned r" and "files w' (temp_filename env) = None"
    using cleanup_removes by auto
next
  assume "ptype \<noteq> ''streaming''"
  then have "\<And>cmd w1. launch env cmd ptype w1 \<noteq> None" by (rule launch_batch_returns)
  then show "generate_and_run_beam_pipeline env project_id region gcs job src args ptype w \<noteq> None"
    by (rule generate_returns_from_launch[OF assms])
next
  assume s: "\<forall>cmd lines e r. streaming_process env cmd = Stream lines e r \<longrightarrow> stops lines"
  show "generate_and_run_beam_pipeline env project_id region gcs job src args ptype w \<noteq> None"
  proof (cases "ptype = ''streaming''")
    case True
    have "\<And>cmd w1. launch env cmd ''streaming'' w1 \<noteq> None"
      using s by (intro launch_streaming_returns) blast
    then show ?thesis unfolding True by (rule generate_returns_from_launch[OF assms])
  next
    case False
    then have "\<And>cmd w1. launch env cmd ptype w1 \<noteq> None" by (rule launch_batch_returns)
    then show ?thesis by (rule generate_returns_from_launch[OF assms])
  qed
qed

lemma example_lines_stop: "stops example_lines"
  unfolding stops_def
  by (rule exI[of _ 1])
     (simp add: example_lines_def job_id_at_def job_id_fixed_def is_digit09_def between_def
        code_def)

text \<open>
  C9 in the concrete environment, in batch mode and in streaming mode.
\<close>

theorem transient_file_removed_witness:
  "(\<exists>r w'. generate_and_run_beam_pipeline example_builder_env ''proj'' ''us'' ''gs://bucket/dir''
       ''My Job'' ''print(1)'' [] ''batch'' empty_world = Some (Returned r, w')
       \<and> files w' (temp_filename example_builder_env) = None)
   \<and> (\<exists>r w'. generate_and_run_beam_pipeline example_builder_env ''proj'' ''us'' ''gs://bucket/dir''
       ''My Job'' ''print(1)'' [] ''streaming'' empty_world = Some (Returned r, w')
       \<and> files w' (temp_filename example_builder_env) = None)"
proof -
  have m: "makedirs_error example_builder_env = None" by (simp add: example_builder_env_def)
  have s: "\<forall>cmd lines e r. streaming_process example_builder_env cmd = Stream lines e r
             \<longrightarrow> stops lines"
    by (simp add: example_builder_env_def example_lines_stop)
  note b = transient_file_removed[where env = example_builder_env and project_id = "''proj''"
      and region = "''us''" and gcs = "''gs://bucket/dir''" and job = "''My Job''"
      and src = "''print(1)''" and args = "[]" and w = empty_world and ptype = "''batch''"]
  note t = transient_file_removed[where env = example_builder_env and project_id = "''proj''"
      and region = "''us''" and gcs = "''gs://bucket/dir''" and job = "''My Job''"
      and src = "''print(1)''" and args = "[]" and w = empty_world and ptype = "''streaming''"]
  have "generate_and_run_beam_pipeline example_builder_env ''proj'' ''us'' ''gs://bucket/dir''
       ''My Job'' ''print(1)'' [] ''batch'' empty_world \<noteq> None"
    using b m by simp
  then have 1: "\<exists>r w'. generate_and_run_beam_pipeline example_builder_env ''proj'' ''us''
       ''gs://bucket/dir'' ''My Job'' ''print(1)'' [] ''batch'' empty_world = Some (Returned r, w')
       \<and> files w' (temp_filename example_builder_env) = None"
    using b m by fastforce
  have "generate_and_run_beam_pipeline example_builder_env ''proj'' ''us'' ''gs://bucket/dir''
       ''My Job'' ''print(1)'' [] ''streaming'' empty_world \<noteq> None"
    using t m s by simp
  then have 2: "\<exists>r w'. generate_and_run_beam_pipeline example_builder_env ''proj'' ''us''
       ''gs://bucket/dir'' ''My Job'' ''print(1)'' [] ''streaming'' empty_world = Some (Returned r, w')
       \<and> files w' (temp_filename example_builder_env) = None"
    using t m by fastforce
  show ?thesis using 1 2 by blast
qed

lemma archive_cases:
  assumes "archive_path env gcs name = (bucket, path)"
  shows "archive env gcs name src w2 =
     (case storage_error env bucket path of
        Some msg \<Rightarrow> (Inl msg, w2)
      | None \<Rightarrow> (Inr (''gs://'' @ bucket @ ''/'' @ path), put_blob (bucket, path) src w2))"
  by (simp add: archive_def assms)

text \<open>
  C8: when the job was launched and an identifier was extracted, the operation returns with that
  identifier; if the archival raises, the status is \<open>success_with_warning\<close>, the archive path is
  \<open>None\<close> and the report ends with the warning that holds the archival error; if the archival
  succeeds, the status is \<open>success\<close>, the archive path is in the result and in the report, and
  the source is stored there. Every returned result whose status is not \<open>error\<close> comes from such
  a launch: no other failure leaves the operation successful.
\<close>

theorem archival_failure_is_warning:
  "(launched_with_id env project_id region gcs job src args ptype w output job_id w2
      \<and> archive_path env gcs (sanitize_job_name (name_uuid env) job) = (bucket, path) \<longrightarrow>
      (\<exists>r w'. generate_and_run_beam_pipeline env project_id region gcs job src args ptype w
                 = Some (Returned r, w')
         \<and> map_of r ''job_id'' = Some (Str job_id)
         \<and> (case storage_error env bucket path of
               Some msg \<Rightarrow>
                 map_of r ''status'' = Some (Str ''success_with_warning'')
                 \<and> map_of r ''gcs_script_path'' = Some PyNone
                 \<and> (\<exists>pre. map_of r ''report'' =
                       Some (Str (pre @ ''WARNING: Failed to save the script to GCS. Error: '' @ msg)))
             | None \<Rightarrow>
                 map_of r ''status'' = Some (Str ''success'')
                 \<and> map_of r ''gcs_script_path'' = Some (Str (''gs://'' @ bucket @ ''/'' @ path))
                 \<and> (\<exists>pre. map_of r ''report'' =
                       Some (Str (pre @ ''The pipeline script was saved to '' @ ''gs://'' @ bucket
                                  @ ''/'' @ path)))
                 \<and> blobs w' (bucket, path) = Some src)))
   \<and> (generate_and_run_beam_pipeline env project_id region gcs job src args ptype w
          = Some (Returned r0, w0)
        \<and> map_of r0 ''status'' \<noteq> Some (Str ''error'') \<longrightarrow>
        (\<exists>output job_id w2.
           launched_with_id env project_id region gcs job src args ptype w output job_id w2))"
proof (intro conjI impI)
  assume a: "launched_with_id env project_id region gcs job src args ptype w output job_id w2
      \<and> archive_path env gcs (sanitize_job_name (name_uuid env) job) = (bucket, path)"
  define name where "name = sanitize_job_name (name_uuid env) job"
  define archived where "archived = fst (archive env gcs name src w2)"
  define w3 where "w3 = snd (archive env gcs name src w2)"
  have g: "generate_and_run_beam_pipeline env project_id region gcs job src args ptype w =
      Some (Returned (final_report name job_id output archived), cleanup env w3)"
    using a unfolding name_def archived_def w3_def by (simp add: launched_result)
  have ar: "archive env gcs name src w2 =
     (case storage_error env bucket path of
        Some msg \<Rightarrow> (Inl msg, w2)
      | None \<Rightarrow> (Inr (''gs://'' @ bucket @ ''/'' @ path), put_blob (bucket, path) src w2))"
    using a unfolding name_def by (simp add: archive_cases)
  obtain pre where pre: "map_of (final_report name job_id output archived) ''report'' =
     Some (Str (pre @ (case archived of
        Inr gcs_path \<Rightarrow> ''The pipeline script was saved to '' @ gcs_path
      | Inl gcs_error \<Rightarrow> ''WARNING: Failed to save the script to GCS. Error: '' @ gcs_error)))"
    using final_report_last_line by blast
  show "\<exists>r w'. generate_and_run_beam_pipeline env project_id region gcs job src args ptype w
                 = Some (Returned r, w')
         \<and> map_of r ''job_id'' = Some (Str job_id)
         \<and> (case storage_error env bucket path of
               Some msg \<Rightarrow>
                 map_of r ''status'' = Some (Str ''success_with_warning'')
                 \<and> map_of r ''gcs_script_path'' = Some PyNone
                 \<and> (\<exists>pre. map_of r ''report'' =
                       Some (Str (pre @ ''WARNING: Failed to save the script to GCS. Error: '' @ msg)))
             | None \<Rightarrow>
                 map_of r ''status'' = Some (Str ''success'')
                 \<and> map_of r ''gcs_script_path'' = Some (Str (''gs://'' @ bucket @ ''/'' @ path))
                 \<and> (\<exists>pre. map_of r ''report'' =
                       Some (Str (pre @ ''The pipeline script was saved to '' @ ''gs://'' @ bucket
                                  @ ''/'' @ path)))
                 \<and> blobs w' (bucket, path) = Some src)"
  proof (cases "storage_error env bucket path")
    case None
    then have "archived = Inr (''gs://'' @ bucket @ ''/'' @ path)"
      and "w3 = put_blob (bucket, path) src w2"
      unfolding archived_def w3_def ar by simp_all
    then show ?thesis
      unfolding g using None pre
      by (simp add: final_report_fields cleanup_blobs put_blob_def)
  next
    case (Some msg)
    then have "archived = Inl msg" unfolding archived_def ar by simp
    then show ?thesis
      unfolding g using Some pre by (simp add: final_report_fields)
  qed
next
  assume "generate_and_run_beam_pipeline env project_id region gcs job src args ptype w
          = Some (Returned r0, w0)
        \<and> map_of r0 ''status'' \<noteq> Some (Str ''error'')"
  then show "\<exists>output job_id w2.
           launched_with_id env project_id region gcs job src args ptype w output job_id w2"
    using not_error_launched by blast
qed

lemma example_launched:
  "launched_with_id example_builder_env ''proj'' ''us'' ''gs://bucket/dir'' ''My Job'' ''print(1)''
     [] ''batch'' empty_world ''Job 2024-05-01_10_20_30-1234567 started''
     ''2024-05-01_10_20_30-1234567''
     (put_file (temp_filename example_builder_env) ''print(1)'' empty_world)"
  by (simp add: launched_with_id_def example_builder_env_def launch_def job_id_at_def
      job_id_fixed_def is_digit09_def between_def code_def)

lemma archiving_launched:
  "launched_with_id archiving_builder_env ''proj'' ''us'' ''gs://bucket/dir'' ''My Job'' ''print(1)''
     [] ''batch'' empty_world ''Job 2024-05-01_10_20_30-1234567 started''
     ''2024-05-01_10_20_30-1234567''
     (put_file (temp_filename archiving_builder_env) ''print(1)'' empty_world)"
  by (simp add: launched_with_id_def archiving_builder_env_def example_builder_env_def launch_def
      job_id_at_def job_id_fixed_def is_digit09_def between_def code_def)

text \<open>
  C8 in the concrete environments: with the archival raising the status is
  \<open>success_with_warning\<close>, with the archival succeeding it is \<open>success\<close>.
\<close>

theorem archival_failure_is_warning_witness:
  "(\<exists>r w'. generate_and_run_beam_pipeline example_builder_env ''proj'' ''us'' ''gs://bucket/dir''
       ''My Job'' ''print(1)'' [] ''batch'' empty_world = Some (Returned r, w')
     \<and> map_of r ''status'' = Some (Str ''success_with_warning'')
     \<and> map_of r ''job_id'' = Some (Str ''2024-05-01_10_20_30-1234567'')
     \<and> map_of r ''gcs_script_path'' = Some PyNone)
   \<and> (\<exists>r w'. generate_and_run_beam_pipeline archiving_builder_env ''proj'' ''us''
       ''gs://bucket/dir'' ''My Job'' ''print(1)'' [] ''batch'' empty_world = Some (Returned r, w')
     \<and> map_of r ''status'' = Some (Str ''success'')
     \<and> map_of r ''job_id'' = Some (Str ''2024-05-01_10_20_30-1234567''))"
proof -
  obtain b1 p1 where a1: "archive_path example_builder_env ''gs://bucket/dir''
      (sanitize_job_name (name_uuid example_builder_env) ''My Job'') = (b1, p1)"
    by (cases "archive_path example_builder_env ''gs://bucket/dir''
      (sanitize_job_name (name_uuid example_builder_env) ''My Job'')") blast
  obtain b2 p2 where a2: "archive_path archiving_builder_env ''gs://bucket/dir''
      (sanitize_job_name (name_uuid archiving_builder_env) ''My Job'') = (b2, p2)"
    by (cases "archive_path archiving_builder_env ''gs://bucket/dir''
      (sanitize_job_name (name_uuid archiving_builder_env) ''My Job'')") blast
  have s1: "storage_error example_builder_env b1 p1 = Some ''403 Forbidden''"
    by (simp add: example_builder_env_def)
  have s2: "storage_error archiving_builder_env b2 p2 = None"
    by (simp add: archiving_builder_env_def example_builder_env_def)
  from archival_failure_is_warning[THEN conjunct1, rule_format, OF conjI, OF example_launched a1]
  have 1: "\<exists>r w'. generate_and_run_beam_pipeline example_builder_env ''proj'' ''us''
       ''gs://bucket/dir'' ''My Job'' ''print(1)'' [] ''batch'' empty_world = Some (Returned r, w')
     \<and> map_of r ''status'' = Some (Str ''success_with_warning'')
     \<and> map_of r ''job_id'' = Some (Str ''2024-05-01_10_20_30-1234567'')
     \<and> map_of r ''gcs_script_path'' = Some PyNone"
    unfolding s1 by auto
  from archival_failure_is_warning[THEN conjunct1, rule_format, OF conjI, OF archiving_launched a2]
  have 2: "\<exists>r w'. generate_and_run_beam_pipeline archiving_builder_env ''proj'' ''us''
       ''gs://bucket/dir'' ''My Job'' ''print(1)'' [] ''batch'' empty_world = Some (Returned r, w')
     \<and> map_of r ''status'' = Some (Str ''success'')
     \<and> map_of r ''job_id'' = Some (Str ''2024-05-01_10_20_30-1234567'')"
    unfolding s2 by auto
  show ?thesis using 1 2 by blast
qed

lemma launch_batch_id:
  "ptype \<noteq> ''streaming'' \<Longrightarrow> launch env cmd ptype w1 = Some (Ok (output, Some job_id), w2)
   \<Longrightarrow> find_job_id output = Some job_id"
  by (auto simp: launch_def Let_def split: batch_result.splits if_splits)

lemma batch_without_id:
  assumes "project_id \<noteq> []" "region \<noteq> []" "take 5 gcs = ''gs://''" "makedirs_error env = None"
    and "write_file env (temp_filename env) src = Written"
    and "ptype \<noteq> ''streaming''"
    and "batch_process env
           (build_command env (full_args project_id region gcs
              (sanitize_job_name (name_uuid env) job) args)) = BatchExit 0 out err"
    and "find_job_id (out @ err) = None"
  shows "\<exists>w'. generate_and_run_beam_pipeline env project_id region gcs job src args ptype w =
     Some (Returned [(''status'', Str ''error''),
                     (''error_message'',
                      Str (''Job launched, but could not find Job ID in output. Full output:''
                           @ newline @ out @ err))], w')"
  using assms(5-8)
  by (simp add: generate_valid[OF assms(1-4)] try_body_def launch_def handlers_def Let_def)

lemma submit_zero_exit:
  assumes "snd (submit_dataflow_template env job ip tp pr rg st cu) = [cmd]"
    and "run_shell env cmd = Inr (0, out)"
  shows "fst (submit_dataflow_template env job ip tp pr rg st cu) =
     [(''status'', Str ''success''), (''stdout'', Str out),
      (''comment'', Str ''Job Submitted Successfully'')]"
  using assms
  unfolding submit_dataflow_template_def submit_unwrapped_def except_exception_def
  by (auto simp: Let_def split: option.splits sum.splits if_splits prod.splits)

text \<open>
  C6, as stated, fails for the template submission: the command exits with status 0 and prints
  \<open>started\<close>, which holds no identifier, and \<open>submit_dataflow_template\<close> reports \<open>success\<close>.
\<close>

theorem template_submission_ignores_identifier:
  "find_job_id ''started'' = None
   \<and> run_shell example_env
        ''gcloud dataflow flex-template run job --project=proj --region=us --template-file-gcs-location=gs://templates/flex/Job --parameters \"^~^a=1,2\" --additional-user-labels=source=plumber''
      = Inr (0, ''started'')
   \<and> submit_dataflow_template example_env ''job'' ''P'' ''T'' ''proj'' ''us'' ''gs://stg'' [] =
     ([(''status'', Str ''success''), (''stdout'', Str ''started''),
       (''comment'', Str ''Job Submitted Successfully'')],
      [''gcloud dataflow flex-template run job --project=proj --region=us --template-file-gcs-location=gs://templates/flex/Job --parameters \"^~^a=1,2\" --additional-user-labels=source=plumber''])"
proof (intro conjI)
  show "find_job_id ''started'' = None"
    by (simp add: job_id_at_def job_id_fixed_def is_digit09_def between_def code_def)
  show "run_shell example_env
        ''gcloud dataflow flex-template run job --project=proj --region=us --template-file-gcs-location=gs://templates/flex/Job --parameters \"^~^a=1,2\" --additional-user-labels=source=plumber''
      = Inr (0, ''started'')"
    by (simp add: example_env_def)
  show "submit_dataflow_template example_env ''job'' ''P'' ''T'' ''proj'' ''us'' ''gs://stg'' [] =
     ([(''status'', Str ''success''), (''stdout'', Str ''started''),
       (''comment'', Str ''Job Submitted Successfully'')],
      [''gcloud dataflow flex-template run job --project=proj --region=us --template-file-gcs-location=gs://templates/flex/Job --parameters \"^~^a=1,2\" --additional-user-labels=source=plumber''])"
    by (rule example_flex_run)
qed

text \<open>
  C6, amended. In the custom job builder, when the batch process exits with status 0 and no
  identifier is found in its output, the result has status \<open>error\<close> and the message
  \<open>Job launched, but could not find Job ID in output\<close> with the full output; and every returned
  result whose status is not \<open>error\<close> comes from a launch in which an identifier was extracted
  (in batch mode, by the search of the whole output), and holds that identifier. The template
  submission does not search its output: when the command it ran exits with status 0, the
  result is \<open>success\<close> with the captured standard output.
\<close>

theorem missing_identifier_is_error:
  "(project_id \<noteq> [] \<and> region \<noteq> [] \<and> take 5 gcs = ''gs://'' \<and> makedirs_error env = None
      \<and> write_file env (temp_filename env) src = Written
      \<and> ptype \<noteq> ''streaming''
      \<and> batch_process env
           (build_command env (full_args project_id region gcs
              (sanitize_job_name (name_uuid env) job) args)) = BatchExit 0 out err
      \<and> find_job_id (out @ err) = None \<longrightarrow>
      (\<exists>w'. generate_and_run_beam_pipeline env project_id region gcs job src args ptype w =
         Some (Returned [(''status'', Str ''error''),
                         (''error_message'',
                          Str (''Job launched, but could not find Job ID in output. Full output:''
                               @ newline @ out @ err))], w')))
   \<and> (generate_and_run_beam_pipeline env project_id region gcs job src args ptype w
          = Some (Returned r, w0)
        \<and> map_of r ''status'' \<noteq> Some (Str ''error'') \<longrightarrow>
        (\<exists>output job_id w2.
           launched_with_id env project_id region gcs job src args ptype w output job_id w2
           \<and> map_of r ''job_id'' = Some (Str job_id)
           \<and> (ptype \<noteq> ''streaming'' \<longrightarrow> find_job_id output = Some job_id)))
   \<and> (snd (submit_dataflow_template senv sjob ip tp pr rg st cu) = [cmd]
        \<and> run_shell senv cmd = Inr (0, sout) \<longrightarrow>
        fst (submit_dataflow_template senv sjob ip tp pr rg st cu) =
          [(''status'', Str ''success''), (''stdout'', Str sout),
           (''comment'', Str ''Job Submitted Successfully'')])"
proof (intro conjI impI)
  assume "project_id \<noteq> [] \<and> region \<noteq> [] \<and> take 5 gcs = ''gs://'' \<and> makedirs_error env = None
      \<and> write_file env (temp_filename env) src = Written
      \<and> ptype \<noteq> ''streaming''
      \<and> batch_process env
           (build_command env (full_args project_id region gcs
              (sanitize_job_name (name_uuid env) job) args)) = BatchExit 0 out err
      \<and> find_job_id (out @ err) = None"
  then show "\<exists>w'. generate_and_run_beam_pipeline env project_id region gcs job src args ptype w =
         Some (Returned [(''status'', Str ''error''),
                         (''error_message'',
                          Str (''Job launched, but could not find Job ID in output. Full output:''
                               @ newline @ out @ err))], w')"
    using batch_without_id by blast
next
  assume a: "generate_and_run_beam_pipeline env project_id region gcs job src args ptype w
          = Some (Returned r, w0)
        \<and> map_of r ''status'' \<noteq> Some (Str ''error'')"
  then obtain outp jid w2 where
    l: "launched_with_id env project_id region gcs job src args ptype w outp jid w2"
    and j: "map_of r ''job_id'' = Some (Str jid)"
    using not_error_launched by blast
  have "ptype \<noteq> ''streaming'' \<longrightarrow> find_job_id outp = Some jid"
    using l launch_batch_id unfolding launched_with_id_def by blast
  then show "\<exists>output job_id w2.
           launched_with_id env project_id region gcs job src args ptype w output job_id w2
           \<and> map_of r ''job_id'' = Some (Str job_id)
           \<and> (ptype \<noteq> ''streaming'' \<longrightarrow> find_job_id output = Some job_id)"
    using l j by blast
next
  assume "snd (submit_dataflow_template senv sjob ip tp pr rg st cu) = [cmd]
        \<and> run_shell senv cmd = Inr (0, sout)"
  then show "fst (submit_dataflow_template senv sjob ip tp pr rg st cu) =
          [(''status'', Str ''success''), (''stdout'', Str sout),
           (''comment'', Str ''Job Submitted Successfully'')]"
    using submit_zero_exit by blast
qed

text \<open>
  C6 in the concrete environments: the batch process that prints \<open>done\<close> gives the error; the
  template submission gives \<open>success\<close>.
\<close>

theorem missing_identifier_is_error_witness:
  "(\<exists>w'. generate_and_run_beam_pipeline quiet_builder_env ''proj'' ''us'' ''gs://bucket/dir''
       ''My Job'' ''print(1)'' [] ''batch'' empty_world =
      Some (Returned [(''status'', Str ''error''),
                      (''error_message'',
                       Str (''Job launched, but could not find Job ID in output. Full output:''
                            @ newline @ ''done''))], w'))
   \<and> fst (submit_dataflow_template example_env ''job'' ''P'' ''T'' ''proj'' ''us'' ''gs://stg'' []) =
       [(''status'', Str ''success''), (''stdout'', Str ''started''),
        (''comment'', Str ''Job Submitted Successfully'')]"
proof -
  have q: "''proj'' \<noteq> [] \<and> ''us'' \<noteq> [] \<and> take 5 ''gs://bucket/dir'' = ''gs://''
      \<and> makedirs_error quiet_builder_env = None
      \<and> write_file quiet_builder_env (temp_filename quiet_builder_env) ''print(1)'' = Written
      \<and> ''batch'' \<noteq> ''streaming''
      \<and> batch_process quiet_builder_env
           (build_command quiet_builder_env (full_args ''proj'' ''us'' ''gs://bucket/dir''
              (sanitize_job_name (name_uuid quiet_builder_env) ''My Job'') [])) = BatchExit 0 ''done'' []
      \<and> find_job_id (''done'' @ []) = None"
    by (simp add: quiet_builder_env_def example_builder_env_def job_id_at_def job_id_fixed_def
        is_digit09_def between_def code_def)
  have s: "snd (submit_dataflow_template example_env ''job'' ''P'' ''T'' ''proj'' ''us'' ''gs://stg'' [])
       = [''gcloud dataflow flex-template run job --project=proj --region=us --template-file-gcs-location=gs://templates/flex/Job --parameters \"^~^a=1,2\" --additional-user-labels=source=plumber'']
     \<and> run_shell example_env
        ''gcloud dataflow flex-template run job --project=proj --region=us --template-file-gcs-location=gs://templates/flex/Job --parameters \"^~^a=1,2\" --additional-user-labels=source=plumber''
      = Inr (0, ''started'')"
  proof (intro conjI)
    show "snd (submit_dataflow_template example_env ''job'' ''P'' ''T'' ''proj'' ''us'' ''gs://stg'' [])
       = [''gcloud dataflow flex-template run job --project=proj --region=us --template-file-gcs-location=gs://templates/flex/Job --parameters \"^~^a=1,2\" --additional-user-labels=source=plumber'']"
      by (simp only: example_flex_run snd_conv)
    show "run_shell example_env
        ''gcloud dataflow flex-template run job --project=proj --region=us --template-file-gcs-location=gs://templates/flex/Job --parameters \"^~^a=1,2\" --additional-user-labels=source=plumber''
      = Inr (0, ''started'')"
      by (simp add: example_env_def)
  qed
  from missing_identifier_is_error[THEN conjunct1, rule_format, OF q]
  have 1: "\<exists>w'. generate_and_run_beam_pipeline quiet_builder_env ''proj'' ''us'' ''gs://bucket/dir''
       ''My Job'' ''print(1)'' [] ''batch'' empty_world =
      Some (Returned [(''status'', Str ''error''),
                      (''error_message'',
                       Str (''Job launched, but could not find Job ID in output. Full output:''
                            @ newline @ ''done''))], w')"
    by simp
  from missing_identifier_is_error[THEN conjunct2, THEN conjunct2, rule_format, OF s]
  have 2: "fst (submit_dataflow_template example_env ''job'' ''P'' ''T'' ''proj'' ''us'' ''gs://stg'' []) =
       [(''status'', Str ''success''), (''stdout'', Str ''started''),
        (''comment'', Str ''Job Submitted Successfully'')]" .
  show ?thesis using 1 2 by blast
qed

end
